theory Spec2Isabelle
  imports Complex_Main "HOL-Library.Word" "HOL-Library.AList" "HOL-Library.Log_Nat"
begin

section \<open>Python values\<close>

text \<open>
  The values that flow through \<^verbatim>\<open>src/api/BaseDB.py\<close>. Integers are unbounded.
  A float is an IEEE binary64 value: a finite one is given by the rational it denotes,
  so \<open>-0.0\<close> and \<open>0.0\<close> are one value (they are equal under Python's \<open>==\<close>).
  A \<open>decimal.Decimal\<close> is given by the rational it denotes, or is one of the special
  values. \<open>Binary\<close> is \<open>boto3.dynamodb.types.Binary\<close>, a box with one attribute
  \<open>value\<close>. \<open>BytesType\<close> is the builtin class object \<open>bytes\<close> itself (not an
  instance of it). Dictionaries keep insertion order and have string keys.
  A string is the list of its code points, and a character of the model is a code
  point below 256 (U+0000 to U+00FF); text with other characters is outside the
  model.
\<close>

type_synonym byte = "8 word"

datatype pyfloat = Fin rat | PInf | NInf | NaN

datatype decimal = DFin rat | DPInf | DNInf | DNaN | DSNaN

datatype pyval =
    PyNone
  | PyBool bool
  | PyInt int
  | PyFloat pyfloat
  | PyStr string
  | PyBytes "byte list"
  | PyByteArray "byte list"
  | PyDecimal decimal
  | Binary pyval
  | BytesType
  | PyList "pyval list"
  | PyDict "(string \<times> pyval) list"

type_synonym pydict = "(string \<times> pyval) list"

subsection \<open>Exceptions\<close>

text \<open>
  The six classes of \<^verbatim>\<open>src/api/Exceptions.py\<close> share one constructor body:
  \<^verbatim>\<open>self.code = code; self.message = f"{self.code}:{message}"\<close>, each with its own
  default code. A message is kept as the parts of the f-string that builds it:
  \<open>Fmt v\<close> stands for the text \<open>str(v)\<close>.
\<close>

datatype fpart = Lit string | Fmt pyval

datatype exception_class =
    NotImplementedError | NotFoundError | MissingParameter
  | InvalidParameter | InvalidMethodError | ServerError

text \<open>
  What a call of the boto3 client or table resource can raise:
  \<open>botocore.exceptions.ClientError\<close> with the error code of the service, or
  anything else of the library's own.
\<close>

datatype boto_error = ClientError string | OtherBotoError string

datatype error =
    Raised exception_class int "fpart list"
  | KeyError | TypeError | ValueError | AttributeError | OverflowError
  | IndexError | UnboundLocalError | MemoryError
  | BotoError boto_error

definition default_code :: "exception_class \<Rightarrow> int" where
  "default_code c = (case c of
      NotImplementedError \<Rightarrow> 501 | NotFoundError \<Rightarrow> 404 | MissingParameter \<Rightarrow> 400
    | InvalidParameter \<Rightarrow> 400 | InvalidMethodError \<Rightarrow> 405 | ServerError \<Rightarrow> 500)"

definition exception_init :: "exception_class \<Rightarrow> fpart list \<Rightarrow> int \<Rightarrow> error" where
  "exception_init c message code = Raised c code ([Fmt (PyInt code), Lit '':''] @ message)"

definition raise :: "exception_class \<Rightarrow> fpart list \<Rightarrow> error" where
  "raise c message = exception_init c message (default_code c)"

fun error_code :: "error \<Rightarrow> int option" where
  "error_code (Raised c code m) = Some code"
| "error_code _ = None"

fun error_class :: "error \<Rightarrow> exception_class option" where
  "error_class (Raised c code m) = Some c"
| "error_class _ = None"

subsection \<open>Builtins on values\<close>

text \<open>\<open>v == None\<close>. A \<open>Binary\<close> compares its boxed value (\<open>Binary.__eq__\<close>).\<close>

fun eq_None :: "pyval \<Rightarrow> bool" where
  "eq_None PyNone = True"
| "eq_None (Binary v) = eq_None v"
| "eq_None _ = False"

text \<open>\<open>v == n\<close> for an integer literal \<open>n\<close>: numbers compare by value across types.\<close>

fun eq_int :: "pyval \<Rightarrow> int \<Rightarrow> bool" where
  "eq_int (PyInt i) n = (i = n)"
| "eq_int (PyBool b) n = ((if b then 1 else 0) = n)"
| "eq_int (PyFloat f) n = (f = Fin (of_int n))"
| "eq_int (PyDecimal d) n = (d = DFin (of_int n))"
| "eq_int (Binary v) n = eq_int v n"
| "eq_int _ n = False"

text \<open>Truth value of a value in a condition (\<open>if v:\<close>, \<open>not v\<close>).\<close>

fun truthy :: "pyval \<Rightarrow> bool" where
  "truthy PyNone = False"
| "truthy (PyBool b) = b"
| "truthy (PyInt i) = (i \<noteq> 0)"
| "truthy (PyFloat f) = (f \<noteq> Fin 0)"
| "truthy (PyStr s) = (s \<noteq> [])"
| "truthy (PyBytes b) = (b \<noteq> [])"
| "truthy (PyByteArray b) = (b \<noteq> [])"
| "truthy (PyDecimal d) = (d \<noteq> DFin 0)"
| "truthy (Binary v) = True"
| "truthy BytesType = True"
| "truthy (PyList xs) = (xs \<noteq> [])"
| "truthy (PyDict d) = (d \<noteq> [])"

text \<open>\<open>d[k]\<close> on a dictionary, and \<open>v[k]\<close> with a string \<open>k\<close> on any value.\<close>

definition getitem :: "pydict \<Rightarrow> string \<Rightarrow> error + pyval" where
  "getitem d k = (case map_of d k of None \<Rightarrow> Inl KeyError | Some v \<Rightarrow> Inr v)"

definition subscript :: "pyval \<Rightarrow> string \<Rightarrow> error + pyval" where
  "subscript v k = (case v of PyDict d \<Rightarrow> getitem d k | _ \<Rightarrow> Inl TypeError)"

text \<open>\<open>d[k] = v\<close>: an existing key keeps its position, a new key goes last.\<close>

definition setitem :: "string \<Rightarrow> pyval \<Rightarrow> pydict \<Rightarrow> pydict" where
  "setitem k v d = AList.update k v d"

subsection \<open>Floats\<close>

text \<open>
  Rounding a rational to the nearest binary64 value, ties to even: 53 bits of
  significand, subnormals below \<open>2^-1022\<close>, overflow to infinity from \<open>2^1024\<close>.
\<close>

definition pow2 :: "int \<Rightarrow> rat" where
  "pow2 k = (if 0 \<le> k then 2 ^ nat k else 1 / 2 ^ nat (- k))"

definition floor_log2 :: "rat \<Rightarrow> int" where
  "floor_log2 q = (if 1 \<le> q then bitlen \<lfloor>q\<rfloor> - 1 else - bitlen (\<lceil>1 / q\<rceil> - 1))"

definition round_half_even :: "rat \<Rightarrow> int" where
  "round_half_even r =
     (let f = \<lfloor>r\<rfloor>; d = r - of_int f
      in if d < 1 / 2 then f else if 1 / 2 < d then f + 1
         else if even f then f else f + 1)"

definition round_double :: "rat \<Rightarrow> pyfloat" where
  "round_double q =
     (if q = 0 then Fin 0
      else let a = \<bar>q\<bar>;
               e = max (floor_log2 a) (- 1022);
               u = pow2 (e - 52);
               m = of_int (round_half_even (a / u)) * u
           in if pow2 1024 \<le> m then (if 0 < q then PInf else NInf)
              else Fin (if 0 < q then m else - m))"

text \<open>The floats that exist: a finite one is a rational that binary64 holds exactly.\<close>

fun is_double :: "pyfloat \<Rightarrow> bool" where
  "is_double (Fin q) = (round_double q = Fin q)"
| "is_double _ = True"

text \<open>\<open>Decimal(v)\<close> for a float \<open>v\<close> is exact; \<open>float(d)\<close> for a Decimal rounds.\<close>

fun decimal_of_float :: "pyfloat \<Rightarrow> decimal" where
  "decimal_of_float (Fin q) = DFin q"
| "decimal_of_float PInf = DPInf"
| "decimal_of_float NInf = DNInf"
| "decimal_of_float NaN = DNaN"

fun float_of_decimal :: "decimal \<Rightarrow> error + pyfloat" where
  "float_of_decimal (DFin q) = Inr (round_double q)"
| "float_of_decimal DPInf = Inr PInf"
| "float_of_decimal DNInf = Inr NInf"
| "float_of_decimal DNaN = Inr NaN"
| "float_of_decimal DSNaN = Inl ValueError"

text \<open>\<open>int(f)\<close> truncates towards zero and raises on infinities and NaN.\<close>

fun int_of_float :: "pyfloat \<Rightarrow> error + int" where
  "int_of_float (Fin q) = Inr (if 0 \<le> q then \<lfloor>q\<rfloor> else \<lceil>q\<rceil>)"
| "int_of_float PInf = Inl OverflowError"
| "int_of_float NInf = Inl OverflowError"
| "int_of_float NaN = Inl ValueError"

text \<open>\<open>float(i)\<close> for an integer, as the right operand of \<open>f - i\<close> is converted.\<close>

definition float_of_int :: "int \<Rightarrow> error + pyfloat" where
  "float_of_int i = (case round_double (of_int i) of
      Fin q \<Rightarrow> Inr (Fin q) | _ \<Rightarrow> Inl OverflowError)"

fun float_sub :: "pyfloat \<Rightarrow> pyfloat \<Rightarrow> pyfloat" where
  "float_sub (Fin a) (Fin b) = round_double (a - b)"
| "float_sub NaN _ = NaN"
| "float_sub _ NaN = NaN"
| "float_sub PInf PInf = NaN"
| "float_sub NInf NInf = NaN"
| "float_sub PInf _ = PInf"
| "float_sub NInf _ = NInf"
| "float_sub (Fin a) PInf = NInf"
| "float_sub (Fin a) NInf = PInf"

subsection \<open>Reading a float from text\<close>

text \<open>
  Reading a float from ASCII text, as \<open>float\<close> does with the content of a bytes
  object and, after the step below, with a string: underscores may stand between
  two digits and are dropped; ASCII white space around the text is dropped; then an
  optional sign and either \<open>inf\<close>, \<open>infinity\<close>, \<open>nan\<close> in any casing, or decimal
  digits with an optional point and an optional exponent. The whole text must be
  used up.
\<close>

definition is_space :: "char \<Rightarrow> bool" where
  "is_space c = ((9 \<le> (of_char c :: nat) \<and> (of_char c :: nat) \<le> 13) \<or> c = CHR '' '')"

definition is_digit :: "char \<Rightarrow> bool" where
  "is_digit c = (48 \<le> (of_char c :: nat) \<and> (of_char c :: nat) \<le> 57)"

definition digit_val :: "char \<Rightarrow> int" where
  "digit_val c = of_char c - 48"

definition lower :: "char \<Rightarrow> char" where
  "lower c = (if 65 \<le> (of_char c :: nat) \<and> (of_char c :: nat) \<le> 90
              then char_of ((of_char c :: nat) + 32) else c)"

definition strip :: "string \<Rightarrow> string" where
  "strip s = rev (dropWhile is_space (rev (dropWhile is_space s)))"

fun underscores_ok :: "char \<Rightarrow> string \<Rightarrow> bool" where
  "underscores_ok prev [] = (prev \<noteq> CHR ''_'')"
| "underscores_ok prev (c # cs) =
     ((if c = CHR ''_'' then is_digit prev
       else if prev = CHR ''_'' then is_digit c else True)
      \<and> underscores_ok c cs)"

definition digits_val :: "string \<Rightarrow> int" where
  "digits_val ds = foldl (\<lambda>n c. 10 * n + digit_val c) 0 ds"

definition split_sign :: "string \<Rightarrow> bool \<times> string" where
  "split_sign s = (case s of
      c # t \<Rightarrow> if c = CHR ''-'' then (True, t) else if c = CHR ''+'' then (False, t)
               else (False, s)
    | [] \<Rightarrow> (False, s))"

definition pow10 :: "int \<Rightarrow> rat" where
  "pow10 k = (if 0 \<le> k then 10 ^ nat k else 1 / 10 ^ nat (- k))"

definition parse_number :: "string \<Rightarrow> rat option" where
  "parse_number s =
     (let ip = takeWhile is_digit s; r1 = dropWhile is_digit s;
          fp = (case r1 of c # t \<Rightarrow> if c = CHR ''.'' then takeWhile is_digit t else []
                | [] \<Rightarrow> []);
          r2 = (case r1 of c # t \<Rightarrow> if c = CHR ''.'' then dropWhile is_digit t else r1
                | [] \<Rightarrow> []);
          mant = of_int (digits_val (ip @ fp)) * pow10 (- int (length fp))
      in if ip = [] \<and> fp = [] then None
         else (case r2 of
            [] \<Rightarrow> Some mant
          | c # t \<Rightarrow>
              if c = CHR ''e'' \<or> c = CHR ''E'' then
                (let (neg, ds) = split_sign t
                 in if ds \<noteq> [] \<and> list_all is_digit ds
                    then Some (mant * pow10 (if neg then - digits_val ds
                                             else digits_val ds))
                    else None)
              else None))"

definition float_of_text :: "string \<Rightarrow> error + pyfloat" where
  "float_of_text s =
     (if CHR ''_'' \<in> set s \<and> \<not> underscores_ok (CHR 0x00) s then Inl ValueError
      else let (neg, body) = split_sign (strip (filter (\<lambda>c. c \<noteq> CHR ''_'') s));
               word = map lower body
           in if word = ''inf'' \<or> word = ''infinity'' then Inr (if neg then NInf else PInf)
              else if word = ''nan'' then Inr NaN
              else (case parse_number body of
                      None \<Rightarrow> Inl ValueError
                    | Some q \<Rightarrow> Inr (round_double (if neg then - q else q))))"

text \<open>
  \<open>float(s)\<close> for a string first turns every character from U+007F on into ASCII:
  white space into a space, a decimal digit into its ASCII digit, anything else into
  a question mark, which no float text contains. Below U+0100 the white space from
  U+007F on is U+0085 and U+00A0, and there is no decimal digit.
\<close>

definition to_ascii :: "char \<Rightarrow> char" where
  "to_ascii c =
     (if (of_char c :: nat) < 127 then c
      else if (of_char c :: nat) = 133 \<or> (of_char c :: nat) = 160 then CHR '' ''
      else CHR ''?'')"

definition float_of_string :: "string \<Rightarrow> error + pyfloat" where
  "float_of_string s = float_of_text (map to_ascii s)"

text \<open>\<open>float(x)\<close> on any value.\<close>

fun py_float :: "pyval \<Rightarrow> error + pyfloat" where
  "py_float (PyStr s) = float_of_string s"
| "py_float (PyBytes b) = float_of_text (map (\<lambda>w. char_of (unat w)) b)"
| "py_float (PyByteArray b) = float_of_text (map (\<lambda>w. char_of (unat w)) b)"
| "py_float (PyFloat f) = Inr f"
| "py_float (PyInt i) = float_of_int i"
| "py_float (PyBool b) = Inr (Fin (if b then 1 else 0))"
| "py_float (PyDecimal d) = float_of_decimal d"
| "py_float _ = Inl TypeError"

text \<open>
  \<open>bytes(x)\<close> on any value. An element of an iterable must be an integer in
  \<open>range(256)\<close>; iterating a dictionary yields its keys, which are strings; a
  \<open>Binary\<close> answers with its boxed value (\<open>__bytes__\<close>). An integer \<open>n\<close> asks
  for \<open>n\<close> zero bytes: a negative one raises ValueError, one from \<open>2^63 - 33\<close> on
  (the largest size less the object header) raises OverflowError, and below that
  the machine has the memory or raises MemoryError. Which sizes the machine can
  allocate is the parameter \<open>fits\<close>; copies of objects that exist are taken to fit.
\<close>

fun byte_of :: "pyval \<Rightarrow> error + byte" where
  "byte_of (PyInt i) = (if 0 \<le> i \<and> i < 256 then Inr (word_of_int i) else Inl ValueError)"
| "byte_of (PyBool b) = Inr (if b then 1 else 0)"
| "byte_of _ = Inl TypeError"

fun bytes_of_list :: "pyval list \<Rightarrow> error + byte list" where
  "bytes_of_list [] = Inr []"
| "bytes_of_list (x # xs) =
     (case byte_of x of
        Inl e \<Rightarrow> Inl e
      | Inr b \<Rightarrow> (case bytes_of_list xs of Inl e \<Rightarrow> Inl e | Inr bs \<Rightarrow> Inr (b # bs)))"

fun py_bytes :: "(nat \<Rightarrow> bool) \<Rightarrow> pyval \<Rightarrow> error + pyval" where
  "py_bytes fits (PyBytes b) = Inr (PyBytes b)"
| "py_bytes fits (PyByteArray b) = Inr (PyBytes b)"
| "py_bytes fits (PyInt n) =
     (if n < 0 then Inl ValueError
      else if 2 ^ 63 - 33 \<le> n then Inl OverflowError
      else if fits (nat n) then Inr (PyBytes (replicate (nat n) 0))
      else Inl MemoryError)"
| "py_bytes fits (PyBool b) = Inr (PyBytes (if b then [0] else []))"
| "py_bytes fits (PyList xs) =
     (case bytes_of_list xs of Inl e \<Rightarrow> Inl e | Inr bs \<Rightarrow> Inr (PyBytes bs))"
| "py_bytes fits (PyDict d) =
     (case bytes_of_list (map (\<lambda>kv. PyStr (fst kv)) d) of
        Inl e \<Rightarrow> Inl e | Inr bs \<Rightarrow> Inr (PyBytes bs))"
| "py_bytes fits (Binary v) = (case v of PyBytes b \<Rightarrow> Inr (PyBytes b) | _ \<Rightarrow> Inl TypeError)"
| "py_bytes fits _ = Inl TypeError"

text \<open>\<open>x == s\<close> for a string literal \<open>s\<close>, as the membership test \<open>x in (...)\<close> uses it.\<close>

fun eq_str :: "pyval \<Rightarrow> string \<Rightarrow> bool" where
  "eq_str (PyStr t) s = (t = s)"
| "eq_str (Binary v) s = eq_str v s"
| "eq_str _ s = False"

text \<open>Whether a value can be a dictionary key (\<open>lookup[v]\<close> raises TypeError otherwise).\<close>

fun hashable :: "pyval \<Rightarrow> bool" where
  "hashable (PyList xs) = False"
| "hashable (PyDict d) = False"
| "hashable (PyByteArray b) = False"
| "hashable (PyDecimal d) = (d \<noteq> DSNaN)"
| "hashable (Binary v) = hashable v"
| "hashable _ = True"

text \<open>
  What the decoders take from outside the source, as parameters: the decoding that
  \<open>json.loads\<close> does, which gives the decoded value, or \<open>None\<close> where the library
  raises \<open>JSONDecodeError\<close> or \<open>UnicodeDecodeError\<close>, both subclasses of
  ValueError; and the sizes of byte strings the machine can allocate.
\<close>

record runtime =
  json_decode :: "pyval \<Rightarrow> pyval option"
  allocates :: "nat \<Rightarrow> bool"

text \<open>\<open>json.loads(x)\<close>: the argument must be text or bytes (TypeError otherwise).\<close>

definition json_loads :: "runtime \<Rightarrow> pyval \<Rightarrow> error + pyval" where
  "json_loads rt x =
     (let parsed = (case json_decode rt x of None \<Rightarrow> Inl ValueError | Some v \<Rightarrow> Inr v)
      in case x of PyStr s \<Rightarrow> parsed | PyBytes b \<Rightarrow> parsed | PyByteArray b \<Rightarrow> parsed
         | _ \<Rightarrow> Inl TypeError)"

section \<open>The type converter\<close>

subsection \<open>\<open>infer_types\<close>\<close>

text \<open>
  The decoder of tag \<open>N\<close>:
  \<^verbatim>\<open>lambda x: int(float(x)) if float(x) - int(float(x)) == 0 else float(x)\<close>.
\<close>

definition conv_N :: "pyval \<Rightarrow> error + pyval" where
  "conv_N x =
     (case py_float x of
        Inl e \<Rightarrow> Inl e
      | Inr f \<Rightarrow>
          (case int_of_float f of
             Inl e \<Rightarrow> Inl e
           | Inr i \<Rightarrow>
               (case float_of_int i of
                  Inl e \<Rightarrow> Inl e
                | Inr g \<Rightarrow>
                    if float_sub f g = Fin 0 then Inr (PyInt i) else Inr (PyFloat f))))"

definition conv_BOOL :: "pyval \<Rightarrow> error + pyval" where
  "conv_BOOL x = Inr (PyBool (eq_str x ''True'' \<or> eq_str x ''true'' \<or> eq_str x ''TRUE''))"

definition conversions :: "runtime \<Rightarrow> (string \<times> (pyval \<Rightarrow> error + pyval)) list" where
  "conversions rt =
     [(''N'', conv_N),
      (''S'', \<lambda>x. Inr x),
      (''BOOL'', conv_BOOL),
      (''NULL'', \<lambda>x. Inr PyNone),
      (''B'', py_bytes (allocates rt)),
      (''L'', json_loads rt),
      (''M'', json_loads rt),
      (''NS'', json_loads rt),
      (''SS'', json_loads rt)]"

text \<open>
  The innermost loop, \<^verbatim>\<open>for dtype, value in val_dict.items(): item[attr_name] =
  conversions[dtype](value)\<close>, then the loop over the attributes of one item (the
  assignments go to keys the item already has, so the iteration sees the entries it
  started with), then the loop over the items.
\<close>

fun infer_value ::
  "runtime \<Rightarrow> string \<Rightarrow> (string \<times> pyval) list \<Rightarrow> pydict \<Rightarrow> error + pydict" where
  "infer_value rt attr_name [] item = Inr item"
| "infer_value rt attr_name ((dtype, v) # rest) item =
     (case map_of (conversions rt) dtype of
        None \<Rightarrow> Inl KeyError
      | Some f \<Rightarrow>
          (case f v of
             Inl e \<Rightarrow> Inl e
           | Inr x \<Rightarrow> infer_value rt attr_name rest (setitem attr_name x item)))"

fun infer_item ::
  "runtime \<Rightarrow> (string \<times> pyval) list \<Rightarrow> pydict \<Rightarrow> error + pydict" where
  "infer_item rt [] item = Inr item"
| "infer_item rt ((attr_name, val_dict) # rest) item =
     (case val_dict of
        PyDict vd \<Rightarrow>
          (case infer_value rt attr_name vd item of
             Inl e \<Rightarrow> Inl e
           | Inr item' \<Rightarrow> infer_item rt rest item')
      | _ \<Rightarrow> Inl AttributeError)"

fun infer_items :: "runtime \<Rightarrow> pyval list \<Rightarrow> error + pyval list" where
  "infer_items rt [] = Inr []"
| "infer_items rt (item # rest) =
     (case item of
        PyDict d \<Rightarrow>
          (case infer_item rt d d of
             Inl e \<Rightarrow> Inl e
           | Inr d' \<Rightarrow>
               (case infer_items rt rest of
                  Inl e \<Rightarrow> Inl e
                | Inr ds \<Rightarrow> Inr (PyDict d' # ds)))
      | _ \<Rightarrow> Inl AttributeError)"

definition infer_types :: "runtime \<Rightarrow> pyval \<Rightarrow> error + pyval" where
  "infer_types rt items =
     (case infer_items rt (case items of PyList xs \<Rightarrow> xs | _ \<Rightarrow> [items]) of
        Inl e \<Rightarrow> Inl e
      | Inr xs \<Rightarrow> Inr (PyList xs))"

subsection \<open>\<open>convert_dtypes\<close>\<close>

text \<open>
  The constructor of \<open>boto3.dynamodb.types.Binary\<close> accepts \<open>bytes\<close> and
  \<open>bytearray\<close> instances only and raises TypeError on anything else.
\<close>

definition Binary_init :: "pyval \<Rightarrow> error + pyval" where
  "Binary_init v =
     (case v of PyBytes b \<Rightarrow> Inr (Binary v) | PyByteArray b \<Rightarrow> Inr (Binary v)
      | _ \<Rightarrow> Inl TypeError)"

text \<open>
  The two loops of \<open>convert_dtypes\<close>. Each runs over the entries the dictionary has
  when the loop starts and assigns to keys that exist, so no entry moves. The result
  is the dictionary as the loop leaves it, also when it raises, and the outcome.
  The write direction is line 308 as written: \<^verbatim>\<open>item[k] = Binary(bytes)\<close>.
\<close>

fun dynamo2native :: "(string \<times> pyval) list \<Rightarrow> pydict \<Rightarrow> pydict \<times> (error + unit)" where
  "dynamo2native [] item = (item, Inr ())"
| "dynamo2native ((k, v) # rest) item =
     (case v of
        Binary b \<Rightarrow> dynamo2native rest (setitem k b item)
      | PyDecimal d \<Rightarrow>
          (case float_of_decimal d of
             Inl e \<Rightarrow> (item, Inl e)
           | Inr f \<Rightarrow> dynamo2native rest (setitem k (PyFloat f) item))
      | _ \<Rightarrow> dynamo2native rest item)"

fun native2dynamo :: "(string \<times> pyval) list \<Rightarrow> pydict \<Rightarrow> pydict \<times> (error + unit)" where
  "native2dynamo [] item = (item, Inr ())"
| "native2dynamo ((k, v) # rest) item =
     (case v of
        PyBytes b \<Rightarrow>
          (case Binary_init BytesType of
             Inl e \<Rightarrow> (item, Inl e)
           | Inr x \<Rightarrow> native2dynamo rest (setitem k x item))
      | PyByteArray b \<Rightarrow>
          (case Binary_init BytesType of
             Inl e \<Rightarrow> (item, Inl e)
           | Inr x \<Rightarrow> native2dynamo rest (setitem k x item))
      | PyFloat f \<Rightarrow> native2dynamo rest (setitem k (PyDecimal (decimal_of_float f)) item)
      | _ \<Rightarrow> native2dynamo rest item)"

definition convert_dtypes :: "pydict \<Rightarrow> string \<Rightarrow> pydict \<times> (error + unit)" where
  "convert_dtypes item type =
     (if type \<notin> set [''dynamo2native'', ''native2dynamo''] then (item, Inl ValueError)
      else if type = ''dynamo2native'' then dynamo2native item item
      else if type = ''native2dynamo'' then native2dynamo item item
      else (item, Inr ()))"

section \<open>The table handle\<close>

text \<open>
  The store is outside the repository: a boto3 table resource and a boto3 client. A
  method of either takes keyword arguments and raises or returns a response; nothing
  is assumed about what it answers. The calls that reach the store are recorded as
  \<open>calls\<close>, in order, each with its keyword arguments.
\<close>

type_synonym kwargs = pydict

type_synonym boto_call = "kwargs \<Rightarrow> boto_error + pyval"

record key_schema_element =
  AttributeName :: string
  KeyType :: string

record boto_table =
  table_name :: string
  table_key_schema :: "key_schema_element list"
  table_get_item :: boto_call
  table_put_item :: boto_call
  table_update_item :: boto_call
  table_delete_item :: boto_call
  table_query :: boto_call
  table_scan :: boto_call

record boto_client =
  client_batch_get_item :: boto_call
  client_execute_statement :: boto_call

text \<open>
  The attributes of a \<open>BaseDynamoDBAbstraction\<close> object. \<open>sort_key\<close> is set only
  for a key schema of two elements, and \<open>payload\<close> is not set by the constructor:
  \<open>None\<close> stands for an attribute the object does not have.
\<close>

record handle =
  verbose :: bool
  debug :: bool
  client :: boto_client
  resource :: "string \<Rightarrow> boto_table"
  table :: boto_table
  key_schema :: "key_schema_element list"
  partition_key :: string
  sort_key :: "string option"
  payload :: "pydict option"

definition init ::
  "boto_client \<Rightarrow> (string \<Rightarrow> boto_table) \<Rightarrow> string \<Rightarrow> bool \<Rightarrow> bool \<Rightarrow> error + handle" where
  "init cl res tname vb dbg =
     (let t = res tname; ks = table_key_schema t
      in case ks of
           [] \<Rightarrow> Inl IndexError
         | e0 # es \<Rightarrow>
             Inr \<lparr>verbose = vb, debug = dbg, client = cl, resource = res, table = t,
                  key_schema = ks, partition_key = AttributeName e0,
                  sort_key = (if length ks = 2 then Some (AttributeName (ks ! 1)) else None),
                  payload = None\<rparr>)"

text \<open>
  What a call can change: the handle object, the dictionary objects the caller shares
  with the call (a store from references to contents), and the record of the calls
  made to the store.
\<close>

type_synonym ref = nat

record world =
  self :: handle
  heap :: "ref \<Rightarrow> pydict"
  calls :: "(string \<times> kwargs) list"

definition invoke :: "string \<Rightarrow> boto_call \<Rightarrow> kwargs \<Rightarrow> world \<Rightarrow> (error + pyval) \<times> world" where
  "invoke method f kw w =
     ((case f kw of Inl b \<Rightarrow> Inl (BotoError b) | Inr response \<Rightarrow> Inr response),
      w\<lparr>calls := calls w @ [(method, kw)]\<rparr>)"

definition status_code :: "pyval \<Rightarrow> error + pyval" where
  "status_code response =
     (case subscript response ''ResponseMetadata'' of
        Inl e \<Rightarrow> Inl e
      | Inr m \<Rightarrow> subscript m ''HTTPStatusCode'')"

subsection \<open>Helper functions\<close>

definition define_key_args :: "handle \<Rightarrow> pyval \<Rightarrow> pyval \<Rightarrow> error + kwargs" where
  "define_key_args h pk_value sk_value =
     (if length (key_schema h) = 2 then
        if eq_None sk_value then
          Inl (raise MissingParameter
                 [Lit ''Table requires a sort key value but none was provided''])
        else (case sort_key h of
                None \<Rightarrow> Inl AttributeError
              | Some sk \<Rightarrow>
                  Inr [(''Key'', PyDict (setitem sk sk_value [(partition_key h, pk_value)]))])
      else Inr [(''Key'', PyDict [(partition_key h, pk_value)])])"

definition request_items :: "handle \<Rightarrow> pyval list \<Rightarrow> kwargs" where
  "request_items h keys =
     [(''RequestItems'', PyDict [(table_name (table h), PyDict [(''Keys'', PyList keys)])])]"

definition define_list_key_args ::
  "handle \<Rightarrow> pyval list \<Rightarrow> pyval list option \<Rightarrow> error + kwargs" where
  "define_list_key_args h pk_list sk_list =
     (if length (key_schema h) = 2 then
        (case sk_list of
           None \<Rightarrow> Inl TypeError
         | Some sks \<Rightarrow>
             if length sks \<noteq> length pk_list then Inl ValueError
             else (case sort_key h of
                     None \<Rightarrow> if pk_list = [] then Inr (request_items h [])
                             else Inl AttributeError
                   | Some sk \<Rightarrow>
                       Inr (request_items h
                              (map (\<lambda>(pk_val, sk_val).
                                      PyDict (setitem sk sk_val [(partition_key h, pk_val)]))
                                   (zip pk_list sks)))))
      else Inr (request_items h (map (\<lambda>pk_val. PyDict [(partition_key h, pk_val)]) pk_list)))"

text \<open>
  \<^verbatim>\<open>arguments['RequestItems'][self.table.name]['AttributesToGet'] = AttributesToGet\<close>
  on the arguments that \<open>define_list_key_args\<close> built.
\<close>

definition set_attributes_to_get :: "string \<Rightarrow> pyval \<Rightarrow> kwargs \<Rightarrow> kwargs" where
  "set_attributes_to_get tname attrs arguments =
     AList.map_entry ''RequestItems''
       (\<lambda>ri. case ri of
          PyDict d \<Rightarrow>
            PyDict (AList.map_entry tname
                      (\<lambda>t. case t of
                         PyDict td \<Rightarrow> PyDict (setitem ''AttributesToGet'' attrs td)
                       | _ \<Rightarrow> t) d)
        | _ \<Rightarrow> ri) arguments"

text \<open>\<open>try: ... except KeyError: raise NotFoundError(...)\<close>\<close>

definition except_KeyError :: "error \<Rightarrow> error \<Rightarrow> error" where
  "except_KeyError e handler = (if e = KeyError then handler else e)"

subsection \<open>Read operations\<close>

definition get_by_keys ::
  "pyval \<Rightarrow> pyval \<Rightarrow> string list \<Rightarrow> world \<Rightarrow> (error + pyval \<times> pyval) \<times> world" where
  "get_by_keys pk_value sk_value AttributesToGet w =
     (case define_key_args (self w) pk_value sk_value of
        Inl e \<Rightarrow> (Inl e, w)
      | Inr arguments \<Rightarrow>
          (case invoke ''get_item'' (table_get_item (table (self w)))
                  (if AttributesToGet \<noteq> []
                   then setitem ''AttributesToGet'' (PyList (map PyStr AttributesToGet)) arguments
                   else arguments) w of
             (Inl e, w1) \<Rightarrow> (Inl e, w1)
           | (Inr response, w1) \<Rightarrow>
               (case status_code response of
                  Inl e \<Rightarrow> (Inl e, w1)
                | Inr statusCode \<Rightarrow>
                    (let not_found = raise NotFoundError
                           [Lit ''Item '', Fmt pk_value, Fmt sk_value, Lit '' was not found'']
                     in case subscript response ''Item'' of
                          Inl e \<Rightarrow> (Inl (except_KeyError e not_found), w1)
                        | Inr (PyDict d) \<Rightarrow>
                            (case convert_dtypes d ''dynamo2native'' of
                               (d', Inl e) \<Rightarrow> (Inl (except_KeyError e not_found), w1)
                             | (d', Inr u) \<Rightarrow>
                                 (Inr (PyDict [(''data'', PyDict d')], statusCode), w1))
                        | Inr other \<Rightarrow> (Inl AttributeError, w1)))))"

definition batch_get_by_key ::
  "runtime \<Rightarrow> pyval list \<Rightarrow> pyval list option \<Rightarrow> string list \<Rightarrow> world
     \<Rightarrow> (error + pyval \<times> pyval) \<times> world" where
  "batch_get_by_key rt pk_list sk_list AttributesToGet w =
     (case define_list_key_args (self w) pk_list sk_list of
        Inl e \<Rightarrow> (Inl e, w)
      | Inr arguments \<Rightarrow>
          (case invoke ''batch_get_item'' (client_batch_get_item (client (self w)))
                  (if AttributesToGet \<noteq> []
                   then set_attributes_to_get (table_name (table (self w)))
                          (PyList (map PyStr AttributesToGet)) arguments
                   else arguments) w of
             (Inl e, w1) \<Rightarrow> (Inl e, w1)
           | (Inr response, w1) \<Rightarrow>
               (case status_code response of
                  Inl e \<Rightarrow> (Inl e, w1)
                | Inr statusCode \<Rightarrow>
                    (case subscript response ''Responses'' of
                       Inl e \<Rightarrow> (Inl e, w1)
                     | Inr rs \<Rightarrow>
                         (case subscript rs (table_name (table (self w))) of
                            Inl e \<Rightarrow> (Inl e, w1)
                          | Inr raw \<Rightarrow>
                              (case infer_types rt raw of
                                 Inl e \<Rightarrow> (Inl e, w1)
                               | Inr data \<Rightarrow>
                                   if \<not> truthy data then
                                     (Inl (raise NotFoundError
                                             [Lit ''None of the items were found'']), w1)
                                   else
                                     (case subscript response ''UnprocessedKeys'' of
                                        Inl e \<Rightarrow> (Inl e, w1)
                                      | Inr uk \<Rightarrow>
                                          if truthy uk then
                                            (case subscript uk (table_name (table (self w))) of
                                               Inl e \<Rightarrow> (Inl e, w1)
                                             | Inr t \<Rightarrow>
                                                 (case subscript t ''Keys'' of
                                                    Inl e \<Rightarrow> (Inl e, w1)
                                                  | Inr keys \<Rightarrow>
                                                      (Inr (PyDict [(''data'', data),
                                                                    (''error'', keys)],
                                                            statusCode), w1)))
                                          else (Inr (PyDict [(''data'', data)], statusCode),
                                                w1))))))))"

definition query_table ::
  "string \<Rightarrow> kwargs \<Rightarrow> world \<Rightarrow> (error + pyval \<times> pyval) \<times> world" where
  "query_table type kw w =
     (let finish = (\<lambda>response w1.
            case status_code response of
              Inl e \<Rightarrow> (Inl e, w1)
            | Inr statusCode \<Rightarrow>
                (case subscript response ''Items'' of
                   Inl e \<Rightarrow> (Inl e, w1)
                 | Inr items \<Rightarrow> (Inr (PyDict [(''data'', items)], statusCode), w1)))
      in if type = ''PartiQL'' then
           (case invoke ''execute_statement'' (client_execute_statement (client (self w))) kw w of
              (Inl e, w1) \<Rightarrow> (Inl e, w1)
            | (Inr response, w1) \<Rightarrow> finish response w1)
         else if type = ''native'' then
           (case invoke ''query'' (table_query (table (self w))) kw w of
              (Inl e, w1) \<Rightarrow> (Inl e, w1)
            | (Inr response, w1) \<Rightarrow>
                (case subscript response ''Count'' of
                   Inl e \<Rightarrow> (Inl e, w1)
                 | Inr c \<Rightarrow>
                     if eq_int c 0 then
                       (Inl (raise NotFoundError [Lit ''None of the given keys were found'']), w1)
                     else finish response w1))
         else (Inl UnboundLocalError, w))"

definition scan_table :: "kwargs \<Rightarrow> world \<Rightarrow> (error + pyval \<times> pyval) \<times> world" where
  "scan_table kw w =
     (case invoke ''scan'' (table_scan (table (self w))) []
             (w\<lparr>self := (self w)\<lparr>payload := Some []\<rparr>\<rparr>) of
        (Inl e, w1) \<Rightarrow> (Inl e, w1)
      | (Inr response, w1) \<Rightarrow>
          (case status_code response of
             Inl e \<Rightarrow> (Inl e, w1)
           | Inr statusCode \<Rightarrow>
               (case subscript response ''Items'' of
                  Inl e \<Rightarrow> (Inl e, w1)
                | Inr Items \<Rightarrow> (Inr (Items, statusCode), w1))))"

subsection \<open>Write operations\<close>

text \<open>
  \<open>add_item\<close> receives a reference to the caller's dictionary. The loop
  \<^verbatim>\<open>for k,v in key_args['Key'].items(): item[k] = v\<close> and \<open>convert_dtypes\<close> write to
  that object; \<open>convert_dtypes\<close> returns the object it was given, so the name
  \<open>item\<close> still refers to it when \<open>put_item\<close> is called.
\<close>

definition merge_key :: "pydict \<Rightarrow> pydict \<Rightarrow> pydict" where
  "merge_key key item = foldl (\<lambda>d kv. setitem (fst kv) (snd kv) d) item key"

definition add_item ::
  "pyval \<Rightarrow> pyval \<Rightarrow> ref \<Rightarrow> world \<Rightarrow> (error + pyval \<times> pyval) \<times> world" where
  "add_item pk_value sk_value item w =
     (case define_key_args (self w) pk_value sk_value of
        Inl e \<Rightarrow> (Inl e, w)
      | Inr key_args \<Rightarrow>
          (case subscript (PyDict key_args) ''Key'' of
             Inr (PyDict key) \<Rightarrow>
               (let w1 = w\<lparr>heap := (heap w)(item := merge_key key (heap w item))\<rparr>
                in case convert_dtypes (heap w1 item) ''native2dynamo'' of
                     (d, Inl e) \<Rightarrow> (Inl e, w1\<lparr>heap := (heap w1)(item := d)\<rparr>)
                   | (d, Inr u) \<Rightarrow>
                       (case invoke ''put_item'' (table_put_item (table (self w)))
                               [(''Item'', PyDict d)] (w1\<lparr>heap := (heap w1)(item := d)\<rparr>) of
                          (Inl e, w2) \<Rightarrow> (Inl e, w2)
                        | (Inr response, w2) \<Rightarrow>
                            (case status_code response of
                               Inl e \<Rightarrow> (Inl e, w2)
                             | Inr statusCode \<Rightarrow>
                                 (Inr (PyBool (eq_int statusCode 200), statusCode), w2))))
           | Inr other \<Rightarrow> (Inl AttributeError, w)
           | Inl e \<Rightarrow> (Inl e, w)))"

text \<open>
  \<open>update_item\<close>. An f-string field \<open>{attribute_name}\<close> is the name itself, or the
  text \<open>None\<close> for the default. The handler of \<open>ClientError\<close> logs the exception
  (not modelled) and raises \<open>InvalidParameter\<close>; any other exception of the store
  call passes through.
\<close>

definition fmt_name :: "string option \<Rightarrow> string" where
  "fmt_name n = (case n of None \<Rightarrow> ''None'' | Some s \<Rightarrow> s)"

text \<open>\<open>kwargs.get(k, default)\<close>\<close>

definition dict_get :: "pydict \<Rightarrow> string \<Rightarrow> pyval \<Rightarrow> pyval" where
  "dict_get d k dflt = (case map_of d k of None \<Rightarrow> dflt | Some v \<Rightarrow> v)"

definition lookup :: "(string \<times> string) list" where
  "lookup =
     [(''UPDATED_OLD'', ''Returned only updated old item''),
      (''ALL_OLD'', ''Returned all old item''),
      (''UPDATED_NEW'', ''Returned only updated new item''),
      (''ALL_NEW'', ''Returned all new item'')]"

definition lookup_message :: "pyval \<Rightarrow> error + pyval" where
  "lookup_message v =
     (if \<not> hashable v then Inl TypeError
      else case v of
             PyStr s \<Rightarrow> (case map_of lookup s of None \<Rightarrow> Inl KeyError
                          | Some m \<Rightarrow> Inr (PyStr m))
           | _ \<Rightarrow> Inl KeyError)"

definition update_arguments ::
  "kwargs \<Rightarrow> string option \<Rightarrow> pyval \<Rightarrow> kwargs \<Rightarrow> kwargs" where
  "update_arguments key_args attribute_name attribute_value kw =
     setitem ''ConditionExpression''
       (dict_get kw ''ConditionExpression''
          (PyStr (''attribute_exists('' @ fmt_name attribute_name @ '')'')))
       (setitem ''ReturnValues'' (dict_get kw ''ReturnValues'' (PyStr ''UPDATED_OLD''))
          (setitem ''ExpressionAttributeValues'' (PyDict [('':r'', attribute_value)])
             (setitem ''UpdateExpression''
                (PyStr (''SET '' @ fmt_name attribute_name @ '' = :r'')) key_args)))"

definition update_item ::
  "pyval \<Rightarrow> pyval \<Rightarrow> string option \<Rightarrow> pyval \<Rightarrow> kwargs \<Rightarrow> world
     \<Rightarrow> (error + pyval \<times> pyval) \<times> world" where
  "update_item pk_value sk_value attribute_name attribute_value kw w =
     (case define_key_args (self w) pk_value sk_value of
        Inl e \<Rightarrow> (Inl e, w)
      | Inr key_args \<Rightarrow>
          (let arguments = update_arguments key_args attribute_name attribute_value kw
           in case invoke ''update_item'' (table_update_item (table (self w))) arguments w of
                (Inl (BotoError (ClientError c)), w1) \<Rightarrow>
                  (Inl (raise InvalidParameter
                          [Lit ''Check that the attribute value is not empty'']), w1)
              | (Inl e, w1) \<Rightarrow> (Inl e, w1)
              | (Inr response, w1) \<Rightarrow>
                  (case status_code response of
                     Inl e \<Rightarrow> (Inl e, w1)
                   | Inr statusCode \<Rightarrow>
                       (case subscript response ''Attributes'' of
                          Inr attrs \<Rightarrow>
                            (case subscript (PyDict arguments) ''ReturnValues'' of
                               Inl e \<Rightarrow> (Inl e, w1)
                             | Inr rv \<Rightarrow>
                                 (case lookup_message rv of
                                    Inl e \<Rightarrow> (Inl e, w1)
                                  | Inr m \<Rightarrow>
                                      (Inr (PyDict [(''data'', attrs), (''message'', m)],
                                            statusCode), w1)))
                        | Inl e \<Rightarrow>
                            (Inr (PyDict [(''message'', PyStr ''Item was updated'')],
                                  statusCode), w1)))))"

subsection \<open>Delete operations\<close>

definition dump_item ::
  "pyval \<Rightarrow> pyval \<Rightarrow> kwargs \<Rightarrow> world \<Rightarrow> (error + pyval \<times> pyval) \<times> world" where
  "dump_item pk_value sk_value kw w =
     (case define_key_args (self w) pk_value sk_value of
        Inl e \<Rightarrow> (Inl e, w)
      | Inr arguments \<Rightarrow>
          (case invoke ''delete_item'' (table_delete_item (table (self w))) arguments w of
             (Inl e, w1) \<Rightarrow> (Inl e, w1)
           | (Inr response, w1) \<Rightarrow>
               (case status_code response of
                  Inl e \<Rightarrow> (Inl e, w1)
                | Inr statusCode \<Rightarrow>
                    (Inr (PyBool (eq_int statusCode 200), statusCode), w1))))"

section \<open>A table to run the operations on\<close>

text \<open>
  A table \<open>Tickets\<close> with the composite key (\<open>movie\<close>, \<open>seat\<close>). Its store holds
  one item with the attributes \<open>movie\<close>, \<open>seat\<close> and \<open>owner\<close>: an update whose
  condition names another attribute is rejected with the service's
  \<open>ConditionalCheckFailedException\<close>. A batch read answers one item and leaves one
  key unprocessed.
\<close>

definition ok_response :: pyval where
  "ok_response = PyDict [(''ResponseMetadata'', PyDict [(''HTTPStatusCode'', PyInt 200)])]"

definition tickets_update_item :: boto_call where
  "tickets_update_item kw =
     (case map_of kw ''ConditionExpression'' of
        Some (PyStr c) \<Rightarrow>
          if c \<in> set (map (\<lambda>a. ''attribute_exists('' @ a @ '')'') [''movie'', ''seat'', ''owner''])
          then Inr ok_response
          else Inl (ClientError ''ConditionalCheckFailedException'')
      | _ \<Rightarrow> Inr ok_response)"

definition tickets_table :: boto_table where
  "tickets_table =
     \<lparr>table_name = ''Tickets'',
      table_key_schema = [\<lparr>AttributeName = ''movie'', KeyType = ''HASH''\<rparr>,
                          \<lparr>AttributeName = ''seat'', KeyType = ''RANGE''\<rparr>],
      table_get_item = (\<lambda>kw. Inr ok_response),
      table_put_item = (\<lambda>kw. Inr ok_response),
      table_update_item = tickets_update_item,
      table_delete_item = (\<lambda>kw. Inr ok_response),
      table_query = (\<lambda>kw. Inr ok_response),
      table_scan = (\<lambda>kw. Inr (PyDict [(''ResponseMetadata'',
                                          PyDict [(''HTTPStatusCode'', PyInt 200)]),
                                         (''Items'', PyList [])]))\<rparr>"

definition unprocessed_key :: pyval where
  "unprocessed_key =
     PyDict [(''movie'', PyDict [(''S'', PyStr ''Alien'')]),
             (''seat'', PyDict [(''S'', PyStr ''C3'')])]"

definition batch_response :: pyval where
  "batch_response =
     PyDict [(''ResponseMetadata'', PyDict [(''HTTPStatusCode'', PyInt 200)]),
             (''Responses'',
              PyDict [(''Tickets'',
                       PyList [PyDict [(''movie'', PyDict [(''S'', PyStr ''Dune'')]),
                                       (''seat'', PyDict [(''S'', PyStr ''B2'')]),
                                       (''sold'', PyDict [(''BOOL'', PyStr ''true'')])]])]),
             (''UnprocessedKeys'',
              PyDict [(''Tickets'', PyDict [(''Keys'', PyList [unprocessed_key])])])]"

definition tickets_client :: boto_client where
  "tickets_client =
     \<lparr>client_batch_get_item = (\<lambda>kw. Inr batch_response),
      client_execute_statement = (\<lambda>kw. Inr ok_response)\<rparr>"

definition tickets_handle :: handle where
  "tickets_handle =
     \<lparr>verbose = False, debug = False, client = tickets_client,
      resource = (\<lambda>n. tickets_table), table = tickets_table,
      key_schema = table_key_schema tickets_table,
      partition_key = ''movie'', sort_key = Some ''seat'', payload = None\<rparr>"

text \<open>The caller's dictionary lives at reference 0.\<close>

definition tickets_world :: "pydict \<Rightarrow> world" where
  "tickets_world item = \<lparr>self = tickets_handle, heap = (\<lambda>r. if r = 0 then item else []), calls = []\<rparr>"

text \<open>
  Two runtimes: one whose JSON decoding rejects every text, and one that decodes
  the text \<open>[1, 2]\<close>. And the world of a client that rejects every update with
  botocore's \<open>ParamValidationError\<close>, which is not a \<open>ClientError\<close>.
\<close>

definition no_json :: runtime where
  "no_json = \<lparr>json_decode = (\<lambda>x. None), allocates = (\<lambda>n. True)\<rparr>"

definition one_json :: runtime where
  "one_json =
     \<lparr>json_decode = (\<lambda>x. if x = PyStr ''[1, 2]'' then Some (PyList [PyInt 1, PyInt 2])
                            else None),
      allocates = (\<lambda>n. True)\<rparr>"

definition rejecting_world :: world where
  "rejecting_world =
     \<lparr>self = tickets_handle
              \<lparr>table := tickets_table
                 \<lparr>table_update_item :=
                    (\<lambda>kw. Inl (OtherBotoError ''ParamValidationError''))\<rparr>\<rparr>,
      heap = (\<lambda>r. []), calls = []\<rparr>"

section \<open>Notions used to state the properties\<close>

text \<open>
  What the read direction of \<open>convert_dtypes\<close> leaves in place of one attribute
  value, when \<open>float\<close> accepts the decimal.
\<close>

definition read_value :: "pyval \<Rightarrow> pyval" where
  "read_value v =
     (case v of
        Binary b \<Rightarrow> b
      | PyDecimal d \<Rightarrow> (case float_of_decimal d of Inr f \<Rightarrow> PyFloat f | Inl e \<Rightarrow> v)
      | _ \<Rightarrow> v)"

text \<open>
  The types a key value has by the annotation \<open>DYNAMODB_KEY_TYPES\<close>
  (\<open>Union[str, int, Decimal]\<close>), and the values the write direction boxes.
\<close>

fun is_key_type :: "pyval \<Rightarrow> bool" where
  "is_key_type (PyStr s) = True"
| "is_key_type (PyInt i) = True"
| "is_key_type (PyDecimal d) = True"
| "is_key_type _ = False"

fun is_bytes :: "pyval \<Rightarrow> bool" where
  "is_bytes (PyBytes b) = True"
| "is_bytes (PyByteArray b) = True"
| "is_bytes _ = False"

text \<open>
  The rationals that binary64 holds: an integer of at most 53 bits times a power
  of two not below \<open>2^-1074\<close>. And truncation towards zero.
\<close>

definition dbl :: "rat \<Rightarrow> bool" where
  "dbl q = (\<exists>m k. q = of_int m * pow2 k \<and> \<bar>m\<bar> \<le> 2 ^ 53 \<and> - 1074 \<le> k)"

definition trunc :: "rat \<Rightarrow> int" where
  "trunc q = (if 0 \<le> q then \<lfloor>q\<rfloor> else \<lceil>q\<rceil>)"

section \<open>Properties\<close>

lemma init_tickets:
  "init tickets_client (\<lambda>n. tickets_table) ''Tickets'' False False = Inr tickets_handle"
  by (simp add: init_def Let_def tickets_handle_def tickets_table_def)

subsection \<open>Key resolution\<close>

lemma define_key_args_missing:
  "length (key_schema h) = 2 \<Longrightarrow> eq_None sk_value \<Longrightarrow>
   define_key_args h pk_value sk_value =
     Inl (Raised MissingParameter 400
            [Fmt (PyInt 400), Lit '':'',
             Lit ''Table requires a sort key value but none was provided''])"
  by (simp add: define_key_args_def raise_def exception_init_def default_code_def)

text \<open>
  C2. On a table whose key schema has two components, every operation that resolves
  a single primary key (\<open>get_by_keys\<close>, \<open>add_item\<close>, \<open>update_item\<close>,
  \<open>dump_item\<close>) raises \<open>MissingParameter\<close> with code 400 when the sort key value
  is None, before any call reaches the store and with nothing changed.
\<close>

theorem missing_sort_key_raises:
  assumes "length (key_schema (self w)) = 2"
  shows "get_by_keys pk_value PyNone AttributesToGet w =
           (Inl (Raised MissingParameter 400
                   [Fmt (PyInt 400), Lit '':'',
                    Lit ''Table requires a sort key value but none was provided'']), w)
       \<and> add_item pk_value PyNone item w =
           (Inl (Raised MissingParameter 400
                   [Fmt (PyInt 400), Lit '':'',
                    Lit ''Table requires a sort key value but none was provided'']), w)
       \<and> update_item pk_value PyNone attribute_name attribute_value kw w =
           (Inl (Raised MissingParameter 400
                   [Fmt (PyInt 400), Lit '':'',
                    Lit ''Table requires a sort key value but none was provided'']), w)
       \<and> dump_item pk_value PyNone kw w =
           (Inl (Raised MissingParameter 400
                   [Fmt (PyInt 400), Lit '':'',
                    Lit ''Table requires a sort key value but none was provided'']), w)"
proof -
  have k: "define_key_args (self w) pk_value PyNone =
     Inl (Raised MissingParameter 400
            [Fmt (PyInt 400), Lit '':'',
             Lit ''Table requires a sort key value but none was provided''])"
    using assms by (simp add: define_key_args_missing)
  show ?thesis
    by (simp add: get_by_keys_def add_item_def update_item_def dump_item_def k)
qed

theorem missing_sort_key_raises_witness:
  "length (key_schema (self (tickets_world []))) = 2
   \<and> get_by_keys (PyStr ''Dune'') PyNone [] (tickets_world []) =
       (Inl (Raised MissingParameter 400
               [Fmt (PyInt 400), Lit '':'',
                Lit ''Table requires a sort key value but none was provided'']),
        tickets_world [])
   \<and> add_item (PyStr ''Dune'') PyNone 0 (tickets_world []) =
       (Inl (Raised MissingParameter 400
               [Fmt (PyInt 400), Lit '':'',
                Lit ''Table requires a sort key value but none was provided'']),
        tickets_world [])
   \<and> update_item (PyStr ''Dune'') PyNone (Some ''owner'') (PyStr ''ann'') [] (tickets_world []) =
       (Inl (Raised MissingParameter 400
               [Fmt (PyInt 400), Lit '':'',
                Lit ''Table requires a sort key value but none was provided'']),
        tickets_world [])
   \<and> dump_item (PyStr ''Dune'') PyNone [] (tickets_world []) =
       (Inl (Raised MissingParameter 400
               [Fmt (PyInt 400), Lit '':'',
                Lit ''Table requires a sort key value but none was provided'']),
        tickets_world [])"
proof -
  have h: "length (key_schema (self (tickets_world []))) = 2"
    by (simp add: tickets_world_def tickets_handle_def tickets_table_def)
  show ?thesis
    using h missing_sort_key_raises [OF h, of "PyStr ''Dune''" "[]" 0 "Some ''owner''" "PyStr ''ann''" "[]"]
    by simp
qed

subsection \<open>Dictionaries\<close>

lemma map_fst_setitem:
  "k \<in> fst ` set d \<Longrightarrow> map fst (setitem k v d) = map fst d"
  by (simp add: setitem_def update_keys)

lemma map_of_setitem: "map_of (setitem k v d) = (map_of d)(k \<mapsto> v)"
  by (simp add: setitem_def update_conv')

subsection \<open>The write direction and the round trip\<close>

lemma native2dynamo_raises_on_bytes:
  "(k, v) \<in> set kvs \<Longrightarrow> (\<exists>b. v = PyBytes b \<or> v = PyByteArray b) \<Longrightarrow>
   snd (native2dynamo kvs item) = Inl TypeError"
  by (induction kvs arbitrary: item) (auto simp: Binary_init_def split: pyval.splits)

text \<open>
  C1. The round trip native to wire to native does not give the byte blob back: on
  an item with a byte blob and a float the write direction raises TypeError at the
  blob, because line 308 boxes the class \<open>bytes\<close> instead of the value, and the
  item is left as it was.
\<close>

theorem write_direction_rejects_blob:
  "convert_dtypes [(''poster'', PyBytes [1, 2, 3]), (''price'', PyFloat (Fin (19 / 2)))]
     ''native2dynamo''
   = ([(''poster'', PyBytes [1, 2, 3]), (''price'', PyFloat (Fin (19 / 2)))], Inl TypeError)"
  by (simp add: convert_dtypes_def Binary_init_def)

subsection \<open>The read direction\<close>

lemma dynamo2native_lookup:
  "distinct (map fst kvs) \<Longrightarrow> (\<forall>k v. (k, v) \<in> set kvs \<longrightarrow> map_of item k = Some v) \<Longrightarrow>
   PyDecimal DSNaN \<notin> snd ` set kvs \<Longrightarrow>
   \<exists>res. dynamo2native kvs item = (res, Inr ()) \<and> map fst res = map fst item
       \<and> (\<forall>k. map_of res k = (case map_of kvs k of Some v \<Rightarrow> Some (read_value v)
                                | None \<Rightarrow> map_of item k))"
proof (induction kvs arbitrary: item)
  case Nil
  then show ?case by simp
next
  case (Cons kv kvs)
  obtain k v where kv: "kv = (k, v)" by (cases kv)
  have here: "map_of item k = Some v" using Cons.prems(2) kv by simp
  then have kin: "k \<in> fst ` set item" by (force dest: map_of_SomeD)
  have knot: "map_of kvs k = None"
    using Cons.prems(1) kv by (simp add: map_of_eq_None_iff)
  define item' where "item' = (if read_value v = v then item else setitem k (read_value v) item)"
  have step: "dynamo2native (kv # kvs) item = dynamo2native kvs item'"
    using Cons.prems(3) kv
    by (cases v; cases "case v of PyDecimal d \<Rightarrow> d | _ \<Rightarrow> DFin 0")
       (auto simp: item'_def read_value_def image_iff)
  have look: "map_of item' = (map_of item)(k \<mapsto> read_value v)"
    using here by (auto simp: item'_def map_of_setitem fun_upd_idem_iff)
  have keys: "map fst item' = map fst item"
    using kin by (simp add: item'_def map_fst_setitem)
  have p2: "\<forall>k' v'. (k', v') \<in> set kvs \<longrightarrow> map_of item' k' = Some v'"
  proof (intro allI impI)
    fix k' v' assume m: "(k', v') \<in> set kvs"
    then have "k' \<noteq> k" using Cons.prems(1) kv by (auto simp: image_iff)
    then show "map_of item' k' = Some v'" using m Cons.prems(2) by (simp add: look)
  qed
  from Cons.IH [of item'] Cons.prems p2
  obtain res where r: "dynamo2native kvs item' = (res, Inr ())" "map fst res = map fst item'"
     "\<forall>k. map_of res k = (case map_of kvs k of Some v \<Rightarrow> Some (read_value v) | None \<Rightarrow> map_of item' k)"
    by auto
  show ?case
    using r step keys knot by (auto simp: kv look split: option.splits)
qed

text \<open>
  C6, as the code has it. In the read direction a boxed binary value is replaced by
  the value in the box, and every decimal is replaced by a float, the double nearest
  to it, also when the decimal has no fractional part: no value becomes an integer.
  All other values and the order of the attributes stay. (A signalling NaN makes
  \<open>float\<close> raise.)
\<close>

theorem read_direction_unboxes_and_floats:
  assumes "distinct (map fst item)" and "PyDecimal DSNaN \<notin> snd ` set item"
  shows "\<exists>res. convert_dtypes item ''dynamo2native'' = (res, Inr ())
            \<and> map fst res = map fst item
            \<and> (\<forall>k. map_of res k = map_option read_value (map_of item k))
            \<and> read_value (Binary b) = b
            \<and> read_value (PyDecimal (DFin q)) = PyFloat (round_double q)"
proof -
  have "\<forall>k v. (k, v) \<in> set item \<longrightarrow> map_of item k = Some v"
    using assms(1) by simp
  from dynamo2native_lookup [OF assms(1) this assms(2)]
  obtain res where r: "dynamo2native item item = (res, Inr ())" "map fst res = map fst item"
     "\<forall>k. map_of res k = (case map_of item k of Some v \<Rightarrow> Some (read_value v) | None \<Rightarrow> map_of item k)"
    by auto
  have "\<forall>k. map_of res k = map_option read_value (map_of item k)"
    using r(3) by (auto split: option.splits)
  then show ?thesis using r by (simp add: convert_dtypes_def read_value_def)
qed

lemma round_double_3: "round_double 3 = Fin 3"
  by code_simp

lemma round_double_19_2: "round_double (19 / 2) = Fin (19 / 2)"
  by code_simp

theorem read_direction_unboxes_and_floats_witness:
  "distinct (map fst [(''poster'', Binary (PyBytes [1, 2])), (''seats'', PyDecimal (DFin 3)),
                      (''price'', PyDecimal (DFin (19 / 2))), (''title'', PyStr ''Dune'')])
   \<and> PyDecimal DSNaN \<notin> snd ` set [(''poster'', Binary (PyBytes [1, 2])),
                      (''seats'', PyDecimal (DFin 3)),
                      (''price'', PyDecimal (DFin (19 / 2))), (''title'', PyStr ''Dune'')]
   \<and> convert_dtypes [(''poster'', Binary (PyBytes [1, 2])), (''seats'', PyDecimal (DFin 3)),
                      (''price'', PyDecimal (DFin (19 / 2))), (''title'', PyStr ''Dune'')]
        ''dynamo2native''
      = ([(''poster'', PyBytes [1, 2]), (''seats'', PyFloat (Fin 3)),
          (''price'', PyFloat (Fin (19 / 2))), (''title'', PyStr ''Dune'')], Inr ())"
proof -
  let ?item = "[(''poster'', Binary (PyBytes [1, 2])), (''seats'', PyDecimal (DFin 3)),
                (''price'', PyDecimal (DFin (19 / 2))), (''title'', PyStr ''Dune'')]"
  have d: "distinct (map fst ?item)" by simp
  have n: "PyDecimal DSNaN \<notin> snd ` set ?item" by simp
  have e: "convert_dtypes ?item ''dynamo2native''
      = ([(''poster'', PyBytes [1, 2]), (''seats'', PyFloat (Fin 3)),
          (''price'', PyFloat (Fin (19 / 2))), (''title'', PyStr ''Dune'')], Inr ())"
    using read_direction_unboxes_and_floats [OF d n]
    by (simp add: convert_dtypes_def setitem_def round_double_3 round_double_19_2)
  show ?thesis using d n e by blast
qed

text \<open>
  The claim C6 as the specification words it fails: a decimal with no fractional
  part comes back as the float \<open>3.0\<close>, not as the integer \<open>3\<close>.
\<close>

theorem read_direction_integral_decimal_is_float:
  "convert_dtypes [(''seats'', PyDecimal (DFin 3))] ''dynamo2native''
     = ([(''seats'', PyFloat (Fin 3))], Inr ())
   \<and> PyFloat (Fin 3) \<noteq> PyInt 3"
  by (simp add: convert_dtypes_def setitem_def round_double_3)

subsection \<open>Decoding tagged values\<close>

text \<open>
  C5, as the code has it. For every string \<open>s\<close>, \<open>{"BOOL": s}\<close> decodes to true
  exactly when \<open>s\<close> is one of the three spellings \<open>True\<close>, \<open>true\<close>, \<open>TRUE\<close>, and
  to false for every other string.
\<close>

theorem bool_decoding_three_spellings:
  "infer_types decode (PyDict [(a, PyDict [(''BOOL'', PyStr s)])])
   = Inr (PyList [PyDict [(a, PyBool (s \<in> set [''True'', ''true'', ''TRUE'']))]])"
  by (simp add: infer_types_def conversions_def conv_BOOL_def setitem_def)

text \<open>
  The claim C5 as the specification words it fails: the mixed casing \<open>tRue\<close>
  decodes to false.
\<close>

theorem bool_decoding_mixed_case_is_false:
  "infer_types no_json (PyDict [(''sold'', PyDict [(''BOOL'', PyStr ''tRue'')])])
   = Inr (PyList [PyDict [(''sold'', PyBool False)]])"
  by (simp add: infer_types_def conversions_def conv_BOOL_def setitem_def)

subsection \<open>The handle and the caller's dictionary\<close>

text \<open>
  C9. \<open>scan_table\<close> assigns \<open>self.payload\<close>: a handle that has no such attribute
  after construction has one after the call.
\<close>

theorem scan_table_sets_payload:
  "payload (self (tickets_world [])) = None
   \<and> payload (self (snd (scan_table [] (tickets_world [])))) = Some []
   \<and> self (snd (scan_table [] (tickets_world []))) \<noteq> self (tickets_world [])"
proof -
  have a: "payload (self (tickets_world [])) = None"
    by (simp add: tickets_world_def tickets_handle_def)
  have b: "payload (self (snd (scan_table [] (tickets_world [])))) = Some []"
    by (simp add: tickets_world_def tickets_handle_def tickets_table_def scan_table_def
          invoke_def status_code_def subscript_def getitem_def)
  from a b have "payload (self (snd (scan_table [] (tickets_world []))))
      \<noteq> payload (self (tickets_world []))" by simp
  then have "self (snd (scan_table [] (tickets_world []))) \<noteq> self (tickets_world [])"
    by metis
  with a b show ?thesis by simp
qed

text \<open>
  C10. With a byte value in the caller's dictionary \<open>add_item\<close> raises TypeError
  before anything is written to the store: the key fields have been merged into the
  caller's dictionary, but the byte value is not boxed and the float after it is not
  converted.
\<close>

theorem add_item_leaves_bytes_unboxed:
  "fst (add_item (PyStr ''Dune'') (PyStr ''B2'') 0
          (tickets_world [(''poster'', PyBytes [1, 2]), (''price'', PyFloat (Fin (19 / 2)))]))
     = Inl TypeError
   \<and> heap (snd (add_item (PyStr ''Dune'') (PyStr ''B2'') 0
          (tickets_world [(''poster'', PyBytes [1, 2]), (''price'', PyFloat (Fin (19 / 2)))]))) 0
     = [(''poster'', PyBytes [1, 2]), (''price'', PyFloat (Fin (19 / 2))),
        (''movie'', PyStr ''Dune''), (''seat'', PyStr ''B2'')]
   \<and> calls (snd (add_item (PyStr ''Dune'') (PyStr ''B2'') 0
          (tickets_world [(''poster'', PyBytes [1, 2]), (''price'', PyFloat (Fin (19 / 2)))]))) = []"
  by (simp add: add_item_def define_key_args_def tickets_world_def tickets_handle_def
        tickets_table_def subscript_def getitem_def setitem_def merge_key_def
        convert_dtypes_def Binary_init_def)

subsection \<open>Batch reads\<close>

lemma infer_items_length:
  "infer_items decode xs = Inr ys \<Longrightarrow> length ys = length xs"
  by (induction xs arbitrary: ys) (auto split: pyval.splits sum.splits)

lemma infer_types_list:
  "infer_types decode raw = Inr data \<Longrightarrow>
   \<exists>ys. data = PyList ys \<and> length ys = length (case raw of PyList xs \<Rightarrow> xs | _ \<Rightarrow> [raw])"
  by (auto simp: infer_types_def split: sum.splits dest: infer_items_length)

lemma subscript_error:
  "subscript v k = Inl e \<Longrightarrow> e = KeyError \<or> e = TypeError"
  by (auto simp: subscript_def getitem_def split: pyval.splits option.splits)

text \<open>
  C3. When the store answers a batch read and the items of the table decode to
  \<open>data\<close>: \<open>batch_get_by_key\<close> raises \<open>NotFoundError\<close> (code 404) exactly when
  \<open>data\<close> is the empty list; otherwise, when the response carries unprocessed keys
  for the table, the payload returned holds \<open>data\<close> and, under \<open>error\<close>, exactly
  the list of keys the store gave as unprocessed.
\<close>

theorem batch_get_not_found_and_unprocessed:
  assumes "define_list_key_args (self w) pk_list sk_list = Inr arguments"
    and "client_batch_get_item (client (self w))
           (if AttributesToGet \<noteq> []
            then set_attributes_to_get (table_name (table (self w)))
                   (PyList (map PyStr AttributesToGet)) arguments
            else arguments) = Inr response"
    and "status_code response = Inr statusCode"
    and "subscript response ''Responses'' = Inr rs"
    and "subscript rs (table_name (table (self w))) = Inr raw"
    and "infer_types decode raw = Inr data"
  shows "((fst (batch_get_by_key decode pk_list sk_list AttributesToGet w)
            = Inl (Raised NotFoundError 404
                     [Fmt (PyInt 404), Lit '':'', Lit ''None of the items were found'']))
          = (data = PyList []))
       \<and> ((\<exists>c m. fst (batch_get_by_key decode pk_list sk_list AttributesToGet w)
                    = Inl (Raised NotFoundError c m))
          = (data = PyList []))
       \<and> (data \<noteq> PyList [] \<longrightarrow>
            subscript response ''UnprocessedKeys'' = Inr uk \<longrightarrow> truthy uk \<longrightarrow>
            subscript uk (table_name (table (self w))) = Inr t \<longrightarrow>
            subscript t ''Keys'' = Inr keys \<longrightarrow>
            fst (batch_get_by_key decode pk_list sk_list AttributesToGet w)
              = Inr (PyDict [(''data'', data), (''error'', keys)], statusCode))"
proof -
  obtain ys where ys: "data = PyList ys" using infer_types_list [OF assms(6)] by blast
  show ?thesis
  proof (cases "AttributesToGet = []")
    case True
    then show ?thesis
      using assms ys
      by (auto simp: batch_get_by_key_def invoke_def raise_def exception_init_def default_code_def
            split: sum.splits dest: subscript_error)
  next
    case False
    then show ?thesis
      using assms ys
      by (auto simp: batch_get_by_key_def invoke_def raise_def exception_init_def default_code_def
            split: sum.splits dest: subscript_error)
  qed
qed

theorem batch_get_not_found_and_unprocessed_witness:
  "define_list_key_args (self (tickets_world []))
       [PyStr ''Dune'', PyStr ''Alien''] (Some [PyStr ''B2'', PyStr ''C3''])
     = Inr (request_items tickets_handle
              [PyDict [(''movie'', PyStr ''Dune''), (''seat'', PyStr ''B2'')],
               PyDict [(''movie'', PyStr ''Alien''), (''seat'', PyStr ''C3'')]])
   \<and> status_code batch_response = Inr (PyInt 200)
   \<and> infer_types no_json
         (PyList [PyDict [(''movie'', PyDict [(''S'', PyStr ''Dune'')]),
                          (''seat'', PyDict [(''S'', PyStr ''B2'')]),
                          (''sold'', PyDict [(''BOOL'', PyStr ''true'')])]])
     = Inr (PyList [PyDict [(''movie'', PyStr ''Dune''), (''seat'', PyStr ''B2''),
                            (''sold'', PyBool True)]])
   \<and> truthy (PyDict [(''Tickets'', PyDict [(''Keys'', PyList [unprocessed_key])])])
   \<and> fst (batch_get_by_key no_json [PyStr ''Dune'', PyStr ''Alien'']
             (Some [PyStr ''B2'', PyStr ''C3'']) [] (tickets_world []))
     = Inr (PyDict [(''data'', PyList [PyDict [(''movie'', PyStr ''Dune''),
                                              (''seat'', PyStr ''B2''),
                                              (''sold'', PyBool True)]]),
                    (''error'', PyList [unprocessed_key])],
            PyInt 200)"
proof -
  let ?w = "tickets_world []"
  let ?args = "request_items tickets_handle
              [PyDict [(''movie'', PyStr ''Dune''), (''seat'', PyStr ''B2'')],
               PyDict [(''movie'', PyStr ''Alien''), (''seat'', PyStr ''C3'')]]"
  let ?raw = "PyList [PyDict [(''movie'', PyDict [(''S'', PyStr ''Dune'')]),
                          (''seat'', PyDict [(''S'', PyStr ''B2'')]),
                          (''sold'', PyDict [(''BOOL'', PyStr ''true'')])]]"
  let ?data = "PyList [PyDict [(''movie'', PyStr ''Dune''), (''seat'', PyStr ''B2''),
                            (''sold'', PyBool True)]]"
  let ?uk = "PyDict [(''Tickets'', PyDict [(''Keys'', PyList [unprocessed_key])])]"
  have h1: "define_list_key_args (self ?w)
       [PyStr ''Dune'', PyStr ''Alien''] (Some [PyStr ''B2'', PyStr ''C3'']) = Inr ?args"
    by (simp add: define_list_key_args_def tickets_world_def tickets_handle_def
          tickets_table_def request_items_def setitem_def)
  have h2: "client_batch_get_item (client (self ?w))
           (if ([]::string list) \<noteq> []
            then set_attributes_to_get (table_name (table (self ?w)))
                   (PyList (map PyStr [])) ?args
            else ?args) = Inr batch_response"
    by (simp add: tickets_world_def tickets_handle_def tickets_client_def)
  have h3: "status_code batch_response = Inr (PyInt 200)"
    by (simp add: status_code_def batch_response_def subscript_def getitem_def)
  have h4: "subscript batch_response ''Responses'' = Inr (PyDict [(''Tickets'', ?raw)])"
    by (simp add: batch_response_def subscript_def getitem_def)
  have h5: "subscript (PyDict [(''Tickets'', ?raw)]) (table_name (table (self ?w))) = Inr ?raw"
    by (simp add: subscript_def getitem_def tickets_world_def tickets_handle_def
          tickets_table_def)
  have h6: "infer_types no_json ?raw = Inr ?data"
    by (simp add: infer_types_def conversions_def conv_BOOL_def setitem_def)
  have n: "?data \<noteq> PyList []" by simp
  have u1: "subscript batch_response ''UnprocessedKeys'' = Inr ?uk"
    by (simp add: batch_response_def subscript_def getitem_def)
  have u2: "truthy ?uk" by simp
  have u3: "subscript ?uk (table_name (table (self ?w)))
      = Inr (PyDict [(''Keys'', PyList [unprocessed_key])])"
    by (simp add: subscript_def getitem_def tickets_world_def tickets_handle_def
          tickets_table_def)
  have u4: "subscript (PyDict [(''Keys'', PyList [unprocessed_key])]) ''Keys''
      = Inr (PyList [unprocessed_key])"
    by (simp add: subscript_def getitem_def)
  from batch_get_not_found_and_unprocessed [OF h1 h2 h3 h4 h5 h6] n u1 u2 u3 u4
  have "fst (batch_get_by_key no_json [PyStr ''Dune'', PyStr ''Alien'']
             (Some [PyStr ''B2'', PyStr ''C3'']) [] ?w)
     = Inr (PyDict [(''data'', ?data), (''error'', PyList [unprocessed_key])], PyInt 200)"
    by blast
  with h1 h3 h6 u2 show ?thesis by simp
qed

subsection \<open>Writing an item\<close>

lemma distinct_setitem: "distinct (map fst d) \<Longrightarrow> distinct (map fst (setitem k v d))"
  by (simp add: setitem_def distinct_update)

lemma set_setitem: "set (setitem k v d) \<subseteq> insert (k, v) (set d)"
  unfolding setitem_def by (induction d) auto

lemma merge_key_other:
  "k \<notin> fst ` set key \<Longrightarrow> map_of (merge_key key item) k = map_of item k"
  unfolding merge_key_def
  by (induction key arbitrary: item) (auto simp: map_of_setitem)

lemma merge_key_lookup:
  "distinct (map fst key) \<Longrightarrow> map_of key k = Some v \<Longrightarrow> map_of (merge_key key item) k = Some v"
proof (induction key arbitrary: item)
  case Nil
  then show ?case by simp
next
  case (Cons kv key)
  show ?case
  proof (cases "fst kv = k")
    case True
    then have "k \<notin> fst ` set key" using Cons.prems(1) by auto
    then have "map_of (merge_key key (setitem (fst kv) (snd kv) item)) k
        = map_of (setitem (fst kv) (snd kv) item) k"
      by (rule merge_key_other)
    then show ?thesis using True Cons.prems(2)
      by (cases kv) (simp add: merge_key_def map_of_setitem)
  next
    case False
    then have "map_of key k = Some v" using Cons.prems(2) by (cases kv) auto
    with Cons.IH [of "setitem (fst kv) (snd kv) item"] Cons.prems(1)
    show ?thesis by (simp add: merge_key_def)
  qed
qed

lemma distinct_merge_key:
  "distinct (map fst item) \<Longrightarrow> distinct (map fst (merge_key key item))"
  unfolding merge_key_def
  by (induction key arbitrary: item) (auto simp: distinct_setitem)

lemma set_merge_key: "set (merge_key key item) \<subseteq> set key \<union> set item"
  unfolding merge_key_def
proof (induction key arbitrary: item)
  case Nil
  then show ?case by simp
next
  case (Cons kv key)
  have "set (foldl (\<lambda>d kv. setitem (fst kv) (snd kv) d) (setitem (fst kv) (snd kv) item) key)
      \<subseteq> set key \<union> set (setitem (fst kv) (snd kv) item)" by (rule Cons.IH)
  also have "\<dots> \<subseteq> set key \<union> insert kv (set item)"
    using set_setitem [of "fst kv" "snd kv" item] by auto
  finally show ?case by auto
qed

lemma native2dynamo_keeps:
  "(\<forall>v'. (k, v') \<in> set kvs \<longrightarrow> is_key_type v') \<Longrightarrow>
   map_of (fst (native2dynamo kvs item)) k = map_of item k"
proof (induction kvs arbitrary: item)
  case Nil
  then show ?case by simp
next
  case (Cons kv kvs)
  obtain k' v where kv: "kv = (k', v)" by (cases kv)
  have rest: "\<forall>v'. (k, v') \<in> set kvs \<longrightarrow> is_key_type v'" using Cons.prems by simp
  have neq: "\<not> is_key_type v \<Longrightarrow> k' \<noteq> k" using Cons.prems kv by auto
  show ?case
    using Cons.IH [OF rest] neq
    by (cases v) (auto simp: kv Binary_init_def map_of_setitem)
qed

lemma native2dynamo_error:
  "snd (native2dynamo kvs item) = Inl e \<Longrightarrow> e = TypeError \<and> list_ex is_bytes (map snd kvs)"
  by (induction kvs arbitrary: item) (auto simp: Binary_init_def split: pyval.splits)

lemma native2dynamo_outcome:
  "snd (native2dynamo kvs item) = Inr () \<or>
   (snd (native2dynamo kvs item) = Inl TypeError \<and> list_ex is_bytes (map snd kvs))"
proof (cases "snd (native2dynamo kvs item)")
  case (Inl e)
  then show ?thesis using native2dynamo_error [OF Inl] by simp
next
  case (Inr u)
  then show ?thesis by simp
qed

lemma define_key_args_key:
  "define_key_args h pk_value sk_value = Inr key_args \<Longrightarrow>
   \<exists>key. key_args = [(''Key'', PyDict key)] \<and> distinct (map fst key)
        \<and> set key \<subseteq> {(partition_key h, pk_value)} \<union> {(k, v). v = sk_value}"
  by (auto simp: define_key_args_def setitem_def split: if_splits option.splits)

text \<open>
  What \<open>add_item\<close> does with the key fields, for every dictionary of the caller and
  every resolved key whose values have a key type: either the item passed to
  \<open>put_item\<close> holds, under every key attribute, the value of the resolved key,
  whatever the caller's dictionary held there; or the dictionary holds a byte value,
  the conversion raises TypeError and \<open>put_item\<close> is not called.
\<close>

lemma add_item_key_fields_win:
  assumes "define_key_args (self w) pk_value sk_value = Inr [(''Key'', PyDict key)]"
    and "is_key_type pk_value"
    and "is_key_type sk_value \<or> sk_value = PyNone"
    and "distinct (map fst (heap w item))"
  shows "(\<exists>d. calls (snd (add_item pk_value sk_value item w))
                = calls w @ [(''put_item'', [(''Item'', PyDict d)])]
              \<and> heap (snd (add_item pk_value sk_value item w)) item = d
              \<and> (\<forall>k v. map_of key k = Some v \<longrightarrow> map_of d k = Some v))
       \<or> (calls (snd (add_item pk_value sk_value item w)) = calls w
              \<and> fst (add_item pk_value sk_value item w) = Inl TypeError
              \<and> list_ex is_bytes (map snd (heap w item)))"
proof -
  from define_key_args_key [OF assms(1)]
  have dk: "distinct (map fst key)"
    and sk: "set key \<subseteq> {(partition_key (self w), pk_value)} \<union> {(k, v). v = sk_value}"
    by auto
  have sk_ok: "is_key_type sk_value" if "(k, sk_value) \<in> set key" "k \<noteq> partition_key (self w) \<or> pk_value \<noteq> sk_value" for k
    using that assms(1,3)
    by (auto simp: define_key_args_def setitem_def split: if_splits option.splits)
  have keyt: "is_key_type v" if "(k, v) \<in> set key" for k v
    using that sk assms(2) sk_ok by (cases "v = pk_value") auto
  let ?m = "merge_key key (heap w item)"
  let ?r = "native2dynamo ?m ?m"
  have dm: "distinct (map fst ?m)" using assms(4) by (rule distinct_merge_key)
  have look: "map_of (fst ?r) k = Some v" if "map_of key k = Some v" for k v
  proof -
    have mv: "map_of ?m k = Some v" using dk that by (rule merge_key_lookup)
    have "is_key_type v" using that keyt by (auto dest: map_of_SomeD)
    then have "\<forall>v'. (k, v') \<in> set ?m \<longrightarrow> is_key_type v'"
      using dm mv by (auto dest: eq_key_imp_eq_value)
    then show ?thesis using mv by (simp add: native2dynamo_keeps)
  qed
  have bytes: "list_ex is_bytes (map snd (heap w item))" if "list_ex is_bytes (map snd ?m)"
  proof -
    from that obtain k v where kv: "(k, v) \<in> set ?m" "is_bytes v"
      by (auto simp: list_ex_iff)
    then have "\<not> is_key_type v" by (cases v) auto
    then have "(k, v) \<notin> set key" using keyt by blast
    then have "(k, v) \<in> set (heap w item)" using kv(1) set_merge_key by blast
    then show ?thesis using kv(2) by (force simp: list_ex_iff)
  qed
  obtain d r where dr: "?r = (d, r)" by (cases ?r)
  consider "r = Inr ()" | "r = Inl TypeError" "list_ex is_bytes (map snd ?m)"
    using native2dynamo_outcome [of ?m ?m] dr by auto
  then show ?thesis
  proof cases
    case 1
    have "calls (snd (add_item pk_value sk_value item w))
                = calls w @ [(''put_item'', [(''Item'', PyDict d)])]
        \<and> heap (snd (add_item pk_value sk_value item w)) item = d"
      using assms(1) dr 1
      by (auto simp: add_item_def subscript_def getitem_def convert_dtypes_def invoke_def Let_def
            split: sum.splits prod.splits)
    moreover have "\<forall>k v. map_of key k = Some v \<longrightarrow> map_of d k = Some v"
      using look dr by simp
    ultimately show ?thesis by blast
  next
    case 2
    have "calls (snd (add_item pk_value sk_value item w)) = calls w
              \<and> fst (add_item pk_value sk_value item w) = Inl TypeError"
      using assms(1) dr 2
      by (auto simp: add_item_def subscript_def getitem_def convert_dtypes_def invoke_def Let_def
            split: sum.splits prod.splits)
    then show ?thesis using bytes 2 by blast
  qed
qed

lemma add_item_key_fields_win_example:
  "define_key_args (self (tickets_world [(''movie'', PyStr ''Alien''), (''seat'', PyStr ''Z9''),
                                         (''price'', PyFloat (Fin (19 / 2)))]))
       (PyStr ''Dune'') (PyStr ''B2'')
     = Inr [(''Key'', PyDict [(''movie'', PyStr ''Dune''), (''seat'', PyStr ''B2'')])]
   \<and> is_key_type (PyStr ''Dune'') \<and> is_key_type (PyStr ''B2'')
   \<and> distinct (map fst (heap (tickets_world [(''movie'', PyStr ''Alien''),
                      (''seat'', PyStr ''Z9''), (''price'', PyFloat (Fin (19 / 2)))]) 0))
   \<and> calls (snd (add_item (PyStr ''Dune'') (PyStr ''B2'') 0
                   (tickets_world [(''movie'', PyStr ''Alien''), (''seat'', PyStr ''Z9''),
                                   (''price'', PyFloat (Fin (19 / 2)))])))
     = [(''put_item'',
         [(''Item'', PyDict [(''movie'', PyStr ''Dune''), (''seat'', PyStr ''B2''),
                             (''price'', PyDecimal (DFin (19 / 2)))])])]"
proof -
  let ?w = "tickets_world [(''movie'', PyStr ''Alien''), (''seat'', PyStr ''Z9''),
                           (''price'', PyFloat (Fin (19 / 2)))]"
  let ?key = "[(''movie'', PyStr ''Dune''), (''seat'', PyStr ''B2'')]"
  let ?d = "[(''movie'', PyStr ''Dune''), (''seat'', PyStr ''B2''),
             (''price'', PyDecimal (DFin (19 / 2)))]"
  have h1: "define_key_args (self ?w) (PyStr ''Dune'') (PyStr ''B2'') = Inr [(''Key'', PyDict ?key)]"
    by (simp add: define_key_args_def tickets_world_def tickets_handle_def tickets_table_def
          setitem_def)
  have h2: "is_key_type (PyStr ''Dune'')" by simp
  have h3: "is_key_type (PyStr ''B2'') \<or> PyStr ''B2'' = PyNone" by simp
  have h4: "distinct (map fst (heap ?w 0))" by (simp add: tickets_world_def)
  have nb: "\<not> list_ex is_bytes (map snd (heap ?w 0))" by (simp add: tickets_world_def)
  from add_item_key_fields_win [OF h1 h2 h3 h4] nb
  obtain d where d: "calls (snd (add_item (PyStr ''Dune'') (PyStr ''B2'') 0 ?w))
                = calls ?w @ [(''put_item'', [(''Item'', PyDict d)])]"
     "heap (snd (add_item (PyStr ''Dune'') (PyStr ''B2'') 0 ?w)) 0 = d"
    by blast
  have "heap (snd (add_item (PyStr ''Dune'') (PyStr ''B2'') 0 ?w)) 0 = ?d"
    by (simp add: add_item_def define_key_args_def subscript_def getitem_def merge_key_def
          setitem_def convert_dtypes_def invoke_def tickets_world_def tickets_handle_def
          tickets_table_def status_code_def ok_response_def)
  with d have "calls (snd (add_item (PyStr ''Dune'') (PyStr ''B2'') 0 ?w))
      = [(''put_item'', [(''Item'', PyDict ?d)])]"
    by (simp add: tickets_world_def)
  with h1 h2 h4 show ?thesis by simp
qed

text \<open>
  C7. With a byte value in the caller's dictionary \<open>add_item\<close> writes no item at
  all: the key fields are merged into the dictionary, then the conversion raises
  TypeError at the byte value and \<open>put_item\<close> is never called, so no written item
  carries the key fields.
\<close>

theorem add_item_with_bytes_writes_nothing:
  "fst (add_item (PyStr ''Dune'') (PyStr ''B2'') 0
          (tickets_world [(''movie'', PyStr ''Alien''), (''poster'', PyBytes [1])]))
     = Inl TypeError
   \<and> calls (snd (add_item (PyStr ''Dune'') (PyStr ''B2'') 0
          (tickets_world [(''movie'', PyStr ''Alien''), (''poster'', PyBytes [1])]))) = []
   \<and> heap (snd (add_item (PyStr ''Dune'') (PyStr ''B2'') 0
          (tickets_world [(''movie'', PyStr ''Alien''), (''poster'', PyBytes [1])]))) 0
     = [(''movie'', PyStr ''Dune''), (''poster'', PyBytes [1]), (''seat'', PyStr ''B2'')]"
  by (simp add: add_item_def define_key_args_def tickets_world_def tickets_handle_def
        tickets_table_def subscript_def getitem_def setitem_def merge_key_def
        convert_dtypes_def Binary_init_def)

subsection \<open>Updating an attribute\<close>

text \<open>
  C8, as the code has it. Called without options, \<open>update_item\<close> makes one call to
  the store's \<open>update_item\<close> whose condition expression is
  \<open>attribute_exists(attribute_name)\<close> and whose return-value mode is
  \<open>UPDATED_OLD\<close>; whenever the store client raises a \<open>ClientError\<close>, as it does
  when the condition fails, \<open>update_item\<close> raises \<open>InvalidParameter\<close> with code
  400; any other exception of the store call passes through as it is.
\<close>

theorem update_item_defaults:
  assumes "define_key_args (self w) pk_value sk_value = Inr key_args"
  shows "calls (snd (update_item pk_value sk_value attribute_name attribute_value [] w))
           = calls w @ [(''update_item'',
                         update_arguments key_args attribute_name attribute_value [])]
       \<and> map_of (update_arguments key_args attribute_name attribute_value [])
             ''ConditionExpression''
           = Some (PyStr (''attribute_exists('' @ fmt_name attribute_name @ '')''))
       \<and> map_of (update_arguments key_args attribute_name attribute_value []) ''ReturnValues''
           = Some (PyStr ''UPDATED_OLD'')
       \<and> map_of (update_arguments key_args attribute_name attribute_value [])
             ''UpdateExpression''
           = Some (PyStr (''SET '' @ fmt_name attribute_name @ '' = :r''))
       \<and> (\<forall>c. table_update_item (table (self w))
                  (update_arguments key_args attribute_name attribute_value [])
                = Inl (ClientError c) \<longrightarrow>
              fst (update_item pk_value sk_value attribute_name attribute_value [] w)
                = Inl (Raised InvalidParameter 400
                         [Fmt (PyInt 400), Lit '':'',
                          Lit ''Check that the attribute value is not empty'']))
       \<and> (\<forall>b. table_update_item (table (self w))
                  (update_arguments key_args attribute_name attribute_value [])
                = Inl (OtherBotoError b) \<longrightarrow>
              fst (update_item pk_value sk_value attribute_name attribute_value [] w)
                = Inl (BotoError (OtherBotoError b)))"
proof -
  let ?args = "update_arguments key_args attribute_name attribute_value []"
  have c: "calls (snd (update_item pk_value sk_value attribute_name attribute_value [] w))
             = calls w @ [(''update_item'', ?args)]"
    using assms
    by (auto simp: update_item_def invoke_def Let_def
          split: sum.splits boto_error.splits prod.splits error.splits)
  have m: "map_of ?args ''ConditionExpression''
             = Some (PyStr (''attribute_exists('' @ fmt_name attribute_name @ '')''))"
       "map_of ?args ''ReturnValues'' = Some (PyStr ''UPDATED_OLD'')"
       "map_of ?args ''UpdateExpression''
             = Some (PyStr (''SET '' @ fmt_name attribute_name @ '' = :r''))"
    by (simp_all add: update_arguments_def map_of_setitem dict_get_def)
  have r: "\<forall>c. table_update_item (table (self w)) ?args = Inl (ClientError c) \<longrightarrow>
              fst (update_item pk_value sk_value attribute_name attribute_value [] w)
                = Inl (Raised InvalidParameter 400
                         [Fmt (PyInt 400), Lit '':'',
                          Lit ''Check that the attribute value is not empty''])"
    using assms
    by (auto simp: update_item_def invoke_def Let_def raise_def exception_init_def default_code_def)
  have o: "\<forall>b. table_update_item (table (self w)) ?args = Inl (OtherBotoError b) \<longrightarrow>
              fst (update_item pk_value sk_value attribute_name attribute_value [] w)
                = Inl (BotoError (OtherBotoError b))"
    using assms
    by (auto simp: update_item_def invoke_def Let_def)
  from c m r o show ?thesis by blast
qed

theorem update_item_defaults_witness:
  "define_key_args (self (tickets_world [])) (PyStr ''Dune'') (PyStr ''B2'')
     = Inr [(''Key'', PyDict [(''movie'', PyStr ''Dune''), (''seat'', PyStr ''B2'')])]
   \<and> calls (snd (update_item (PyStr ''Dune'') (PyStr ''B2'') (Some ''price'') (PyInt 12) []
                   (tickets_world [])))
     = [(''update_item'',
         [(''Key'', PyDict [(''movie'', PyStr ''Dune''), (''seat'', PyStr ''B2'')]),
          (''UpdateExpression'', PyStr ''SET price = :r''),
          (''ExpressionAttributeValues'', PyDict [('':r'', PyInt 12)]),
          (''ReturnValues'', PyStr ''UPDATED_OLD''),
          (''ConditionExpression'', PyStr ''attribute_exists(price)'')])]
   \<and> table_update_item (table (self (tickets_world [])))
         [(''Key'', PyDict [(''movie'', PyStr ''Dune''), (''seat'', PyStr ''B2'')]),
          (''UpdateExpression'', PyStr ''SET price = :r''),
          (''ExpressionAttributeValues'', PyDict [('':r'', PyInt 12)]),
          (''ReturnValues'', PyStr ''UPDATED_OLD''),
          (''ConditionExpression'', PyStr ''attribute_exists(price)'')]
       = Inl (ClientError ''ConditionalCheckFailedException'')
   \<and> fst (update_item (PyStr ''Dune'') (PyStr ''B2'') (Some ''price'') (PyInt 12) []
            (tickets_world []))
     = Inl (Raised InvalidParameter 400
              [Fmt (PyInt 400), Lit '':'', Lit ''Check that the attribute value is not empty''])
   \<and> define_key_args (self rejecting_world) (PyStr ''Dune'') (PyStr ''B2'')
     = Inr [(''Key'', PyDict [(''movie'', PyStr ''Dune''), (''seat'', PyStr ''B2'')])]
   \<and> table_update_item (table (self rejecting_world))
         (update_arguments [(''Key'', PyDict [(''movie'', PyStr ''Dune''), (''seat'', PyStr ''B2'')])]
            (Some ''owner'') (PyStr ''ann'') [])
       = Inl (OtherBotoError ''ParamValidationError'')
   \<and> fst (update_item (PyStr ''Dune'') (PyStr ''B2'') (Some ''owner'') (PyStr ''ann'') []
            rejecting_world)
     = Inl (BotoError (OtherBotoError ''ParamValidationError''))"
proof -
  let ?key_args = "[(''Key'', PyDict [(''movie'', PyStr ''Dune''), (''seat'', PyStr ''B2'')])]"
  have k': "define_key_args (self rejecting_world) (PyStr ''Dune'') (PyStr ''B2'')
     = Inr ?key_args"
    by (simp add: define_key_args_def rejecting_world_def tickets_handle_def tickets_table_def
          setitem_def)
  have s': "table_update_item (table (self rejecting_world))
         (update_arguments ?key_args (Some ''owner'') (PyStr ''ann'') [])
       = Inl (OtherBotoError ''ParamValidationError'')"
    by (simp add: rejecting_world_def tickets_handle_def tickets_table_def)
  from update_item_defaults [OF k', of "Some ''owner''" "PyStr ''ann''"] s'
  have r': "fst (update_item (PyStr ''Dune'') (PyStr ''B2'') (Some ''owner'') (PyStr ''ann'') []
            rejecting_world)
     = Inl (BotoError (OtherBotoError ''ParamValidationError''))"
    by blast
  have k: "define_key_args (self (tickets_world [])) (PyStr ''Dune'') (PyStr ''B2'')
     = Inr ?key_args"
    by (simp add: define_key_args_def tickets_world_def tickets_handle_def tickets_table_def
          setitem_def)
  have a: "update_arguments ?key_args (Some ''price'') (PyInt 12) []
        = [(''Key'', PyDict [(''movie'', PyStr ''Dune''), (''seat'', PyStr ''B2'')]),
          (''UpdateExpression'', PyStr ''SET price = :r''),
          (''ExpressionAttributeValues'', PyDict [('':r'', PyInt 12)]),
          (''ReturnValues'', PyStr ''UPDATED_OLD''),
          (''ConditionExpression'', PyStr ''attribute_exists(price)'')]"
    by (simp add: update_arguments_def setitem_def dict_get_def fmt_name_def)
  have s: "table_update_item (table (self (tickets_world [])))
             (update_arguments ?key_args (Some ''price'') (PyInt 12) [])
       = Inl (ClientError ''ConditionalCheckFailedException'')"
    unfolding a
    by (simp add: tickets_world_def tickets_handle_def tickets_table_def tickets_update_item_def)
  have e: "calls (tickets_world []) = []" by (simp add: tickets_world_def)
  from update_item_defaults [OF k, of "Some ''price''" "PyInt 12"] s
  have "calls (snd (update_item (PyStr ''Dune'') (PyStr ''B2'') (Some ''price'') (PyInt 12) []
                   (tickets_world [])))
         = calls (tickets_world []) @
           [(''update_item'', update_arguments ?key_args (Some ''price'') (PyInt 12) [])]"
    and "fst (update_item (PyStr ''Dune'') (PyStr ''B2'') (Some ''price'') (PyInt 12) []
            (tickets_world []))
     = Inl (Raised InvalidParameter 400
              [Fmt (PyInt 400), Lit '':'', Lit ''Check that the attribute value is not empty''])"
    by blast+
  with k s k' s' r' show ?thesis unfolding a e by simp
qed

text \<open>
  The claim C8 as the specification words it fails: a store client that rejects the
  call with an exception other than \<open>ClientError\<close> is not answered with
  \<open>InvalidParameter\<close>; the exception of the client passes through.
\<close>

theorem update_item_other_rejection_passes_through:
  "table_update_item (table (self rejecting_world))
      (update_arguments [(''Key'', PyDict [(''movie'', PyStr ''Dune''), (''seat'', PyStr ''B2'')])]
         (Some ''owner'') (PyStr ''ann'') [])
     = Inl (OtherBotoError ''ParamValidationError'')
   \<and> fst (update_item (PyStr ''Dune'') (PyStr ''B2'') (Some ''owner'') (PyStr ''ann'') []
            rejecting_world)
     = Inl (BotoError (OtherBotoError ''ParamValidationError''))
   \<and> error_class (BotoError (OtherBotoError ''ParamValidationError'')) = None"
  by (simp add: update_item_def define_key_args_def invoke_def Let_def rejecting_world_def
        tickets_handle_def tickets_table_def setitem_def)

subsection \<open>Rounding to binary64\<close>

lemma pow2_powi: "pow2 k = 2 powi k"
  by (simp add: pow2_def power_int_def inverse_eq_divide power_one_over)

lemma pow2_pos: "0 < pow2 k"
  by (simp add: pow2_powi)

lemma pow2_add: "pow2 (a + b) = pow2 a * pow2 b"
  by (simp add: pow2_powi power_int_add)

lemma pow2_diff: "pow2 (a - b) = pow2 a / pow2 b"
  by (simp add: pow2_powi power_int_diff)

lemma pow2_mono: "a \<le> b \<Longrightarrow> pow2 a \<le> pow2 b"
  by (simp add: pow2_powi power_int_increasing)

lemma pow2_strict_mono: "a < b \<Longrightarrow> pow2 a < pow2 b"
  by (simp add: pow2_powi power_int_strict_increasing)

lemma pow2_nat: "pow2 (int n) = 2 ^ n"
  by (simp add: pow2_def)

lemma pow2_0: "pow2 0 = 1"
  by (simp add: pow2_def)

lemma floor_log2_bounds:
  assumes "0 < a"
  shows "pow2 (floor_log2 a) \<le> a \<and> a < pow2 (floor_log2 a + 1)"
proof (cases "1 \<le> a")
  case True
  define n where "n = \<lfloor>a\<rfloor>"
  have n1: "1 \<le> n" using True by (simp add: n_def)
  then have n0: "0 < n" by simp
  have b: "2 ^ nat (bitlen n - 1) \<le> n" "n < 2 ^ nat (bitlen n)"
    using bitlen_bounds [OF n0] by auto
  have bl: "1 \<le> bitlen n" using n0 by (simp add: bitlen_alt_def)
  have fl: "floor_log2 a = bitlen n - 1" using True by (simp add: floor_log2_def n_def)
  have "pow2 (bitlen n - 1) = of_int (2 ^ nat (bitlen n - 1))"
    using bl by (simp add: pow2_def)
  also have "\<dots> \<le> of_int n" using b(1) by (simp only: of_int_le_iff)
  also have "\<dots> \<le> a" by (simp add: n_def)
  finally have lo: "pow2 (floor_log2 a) \<le> a" by (simp add: fl)
  have "a < of_int (n + 1)" unfolding n_def by linarith
  also have "\<dots> \<le> of_int (2 ^ nat (bitlen n))" using b(2) by (simp only: of_int_le_iff)
  also have "\<dots> = pow2 (bitlen n)" using bl by (simp add: pow2_def)
  finally have hi: "a < pow2 (floor_log2 a + 1)" by (simp add: fl)
  from lo hi show ?thesis by simp
next
  case False
  then have a1: "a < 1" by simp
  define c where "c = \<lceil>1 / a\<rceil>"
  define n where "n = c - 1"
  have inv: "1 < 1 / a" using assms a1 by simp
  then have c2: "2 \<le> c" unfolding c_def by (simp add: le_ceiling_iff) 
  then have n0: "0 < n" by (simp add: n_def)
  have b: "2 ^ nat (bitlen n - 1) \<le> n" "n < 2 ^ nat (bitlen n)"
    using bitlen_bounds [OF n0] by auto
  have bl: "1 \<le> bitlen n" using n0 by (simp add: bitlen_alt_def)
  have fl: "floor_log2 a = - bitlen n" using False by (simp add: floor_log2_def n_def c_def)
  have "1 / a \<le> of_int c" by (simp add: c_def)
  also have "of_int c \<le> (of_int (2 ^ nat (bitlen n)) :: rat)"
    using b(2) by (simp only: of_int_le_iff n_def)
  also have "\<dots> = pow2 (bitlen n)" using bl by (simp add: pow2_def)
  finally have "1 / a \<le> pow2 (bitlen n)" .
  then have "1 \<le> pow2 (bitlen n) * a" using assms by (simp add: pos_divide_le_eq)
  then have "1 / pow2 (bitlen n) \<le> a" using pow2_pos [of "bitlen n"]
    by (simp add: pos_divide_le_eq mult.commute)
  moreover have "pow2 (- bitlen n) = 1 / pow2 (bitlen n)"
    using pow2_diff [of 0 "bitlen n"] by (simp add: pow2_0)
  ultimately have lo: "pow2 (floor_log2 a) \<le> a" by (simp add: fl)
  have "of_int n < 1 / a" unfolding n_def c_def by linarith
  moreover have "pow2 (bitlen n - 1) = of_int (2 ^ nat (bitlen n - 1))"
    using bl by (simp add: pow2_def)
  moreover have "(of_int (2 ^ nat (bitlen n - 1)) :: rat) \<le> of_int n"
    using b(1) by (simp only: of_int_le_iff)
  ultimately have "pow2 (bitlen n - 1) < 1 / a" by linarith
  then have "pow2 (bitlen n - 1) * a < 1" using assms by (simp add: pos_less_divide_eq)
  then have "a < 1 / pow2 (bitlen n - 1)" using pow2_pos [of "bitlen n - 1"]
    by (simp add: pos_less_divide_eq mult.commute)
  moreover have "pow2 (- bitlen n + 1) = 1 / pow2 (bitlen n - 1)"
    using pow2_diff [of 0 "bitlen n - 1"] by (simp add: pow2_0)
  ultimately have hi: "a < pow2 (floor_log2 a + 1)" by (simp add: fl)
  from lo hi show ?thesis by simp
qed

lemma round_half_even_of_int: "round_half_even (of_int n) = n"
  by (simp add: round_half_even_def)

lemma round_half_even_bounds:
  "0 \<le> x \<Longrightarrow> x \<le> of_int N \<Longrightarrow> 0 \<le> round_half_even x \<and> round_half_even x \<le> N"
proof -
  assume x: "0 \<le> x" "x \<le> of_int N"
  have f0: "0 \<le> \<lfloor>x\<rfloor>" using x(1) by simp
  have fN: "\<lfloor>x\<rfloor> \<le> N" using x(2) by linarith
  have up: "\<lfloor>x\<rfloor> + 1 \<le> N" if "of_int \<lfloor>x\<rfloor> < x"
    using that x(2) by linarith
  show ?thesis
    unfolding round_half_even_def Let_def
    using f0 fN up by (auto simp: not_less)
qed


lemma round_double_dbl:
  assumes "round_double r = Fin q"
  shows "dbl q \<and> \<bar>q\<bar> < pow2 1024"
proof (cases "r = 0")
  case True
  then have "q = 0" using assms by (simp add: round_double_def)
  then show ?thesis using pow2_pos [of 1024] by (auto simp: dbl_def intro!: exI [of _ 0])
next
  case False
  define a where "a = \<bar>r\<bar>"
  define e where "e = max (floor_log2 a) (- 1022)"
  define u where "u = pow2 (e - 52)"
  define n where "n = round_half_even (a / u)"
  have a0: "0 < a" using False by (simp add: a_def)
  have u0: "0 < u" by (simp add: u_def pow2_pos)
  have rd: "round_double r = (if pow2 1024 \<le> of_int n * u then (if 0 < r then PInf else NInf)
              else Fin (if 0 < r then of_int n * u else - (of_int n * u)))"
    using False by (simp add: round_double_def Let_def a_def e_def u_def n_def)
  then have small: "\<not> pow2 1024 \<le> of_int n * u" and q: "q = (if 0 < r then of_int n * u else - (of_int n * u))"
    using assms by (auto split: if_splits)
  have "a < pow2 (floor_log2 a + 1)" using floor_log2_bounds [OF a0] by simp
  also have "\<dots> \<le> pow2 (e + 1)" by (rule pow2_mono) (simp add: e_def)
  finally have "a < pow2 (e + 1)" .
  moreover have "pow2 (e + 1) = pow2 53 * u"
    using pow2_add [of 53 "e - 52"] by (simp add: u_def add.commute)
  ultimately have "a / u < pow2 53" using u0 by (simp add: pos_divide_less_eq)
  then have "a / u \<le> of_int (2 ^ 53)" by (simp add: pow2_def)
  moreover have "0 \<le> a / u" using a0 u0 by simp
  ultimately have nb: "0 \<le> n \<and> n \<le> 2 ^ 53"
    unfolding n_def by (rule round_half_even_bounds [rotated])
  have k: "- 1074 \<le> e - 52" by (simp add: e_def)
  have "dbl q"
  proof (cases "0 < r")
    case True
    then have "q = of_int n * pow2 (e - 52)" using q by (simp add: u_def)
    then show ?thesis using nb k unfolding dbl_def by (intro exI [of _ n] exI [of _ "e - 52"]) simp
  next
    case False
    then have "q = of_int (- n) * pow2 (e - 52)" using q by (simp add: u_def)
    then show ?thesis using nb k unfolding dbl_def by (intro exI [of _ "- n"] exI [of _ "e - 52"]) simp
  qed
  moreover have "\<bar>q\<bar> = of_int n * u" using q nb u0 by (auto simp: abs_mult)
  ultimately show ?thesis using small by simp
qed

lemma pow2_le_cancel: "pow2 a \<le> pow2 b \<Longrightarrow> a \<le> b"
  using pow2_strict_mono [of b a] by (cases "a \<le> b") auto

lemma dbl_round_double:
  assumes "dbl q" and "\<bar>q\<bar> < pow2 1024"
  shows "round_double q = Fin q"
proof (cases "q = 0")
  case True
  then show ?thesis by (simp add: round_double_def)
next
  case False
  from assms(1) obtain m k where mk: "q = of_int m * pow2 k" "\<bar>m\<bar> \<le> 2 ^ 53" "- 1074 \<le> k"
    unfolding dbl_def by blast
  define M where "M = \<bar>m\<bar>"
  define a where "a = \<bar>q\<bar>"
  define e where "e = max (floor_log2 a) (- 1022)"
  define u where "u = pow2 (e - 52)"
  have a0: "0 < a" using False by (simp add: a_def)
  have u0: "0 < u" by (simp add: u_def pow2_pos)
  have aM: "a = of_int M * pow2 k"
    using pow2_pos [of k] by (simp add: a_def mk(1) M_def abs_mult)
  have M53: "M \<le> 2 ^ 53" using mk(2) by (simp add: M_def)
  have "\<exists>n. a / u = of_int n"
  proof (cases "e - 52 \<le> k")
    case True
    have "pow2 k / u = pow2 (k - (e - 52))" by (simp add: u_def pow2_diff)
    also have "\<dots> = of_int (2 ^ nat (k - (e - 52)))" using True by (simp add: pow2_def)
    finally have "pow2 k / u = of_int (2 ^ nat (k - (e - 52)))" .
    moreover have "a / u = of_int M * (pow2 k / u)" by (simp add: aM)
    ultimately have "a / u = of_int (M * 2 ^ nat (k - (e - 52)))" by simp
    then show ?thesis by blast
  next
    case False
    then have ek: "52 < e - k" by simp
    then have "- 1022 < e" using mk(3) by simp
    then have efl: "e = floor_log2 a" by (simp add: e_def max_def split: if_splits)
    have "pow2 e \<le> a" using floor_log2_bounds [OF a0] by (simp add: efl)
    then have "pow2 e / pow2 k \<le> of_int M"
      using pow2_pos [of k] by (simp add: aM pos_divide_le_eq)
    then have le: "pow2 (e - k) \<le> of_int M" by (simp add: pow2_diff)
    also have "(of_int M :: rat) \<le> of_int (2 ^ 53)" using M53 by (simp only: of_int_le_iff)
    also have "\<dots> = pow2 53" by (simp add: pow2_def)
    finally have "e - k \<le> 53" by (rule pow2_le_cancel)
    with ek have ek53: "e - k = 53" by simp
    then have "pow2 53 \<le> of_int M" using le by simp
    then have "(of_int (2 ^ 53) :: rat) \<le> of_int M" by (simp add: pow2_def)
    then have "2 ^ 53 \<le> M" by (simp only: of_int_le_iff)
    with M53 have M: "M = 2 ^ 53" by simp
    have k: "k = e - 53" using ek53 by simp
    have "a / u = pow2 53 * pow2 (e - 53) / pow2 (e - 52)"
      by (simp add: aM M k u_def pow2_def)
    also have "\<dots> = pow2 (53 + (e - 53) - (e - 52))"
      by (simp only: pow2_add pow2_diff)
    also have "\<dots> = of_int (2 ^ 52)" by (simp add: pow2_def)
    finally show ?thesis by blast
  qed
  then obtain n where n: "a / u = of_int n" by blast
  then have au: "of_int n * u = a" using u0 by (simp add: field_simps)
  have "round_double q = Fin (if 0 < q then a else - a)"
    using False assms(2) au
    by (simp add: round_double_def Let_def a_def [symmetric] e_def [symmetric] u_def [symmetric]
          n round_half_even_of_int not_le)
  then show ?thesis by (auto simp: a_def)
qed

lemma is_double_iff: "is_double (Fin q) = (dbl q \<and> \<bar>q\<bar> < pow2 1024)"
  using round_double_dbl [of q q] dbl_round_double [of q] by auto

lemma trunc_cases:
  obtains (nonneg) "0 \<le> q" "trunc q = \<lfloor>q\<rfloor>" "0 \<le> \<lfloor>q\<rfloor>" "of_int \<lfloor>q\<rfloor> \<le> q" "q < of_int \<lfloor>q\<rfloor> + 1"
  | (neg) "q < 0" "trunc q = \<lceil>q\<rceil>" "\<lceil>q\<rceil> \<le> 0" "q \<le> of_int \<lceil>q\<rceil>" "of_int \<lceil>q\<rceil> - 1 < q"
proof (cases "0 \<le> q")
  case True
  moreover have "trunc q = \<lfloor>q\<rfloor>" using True by (simp add: trunc_def)
  moreover have "0 \<le> \<lfloor>q\<rfloor>" using True by simp
  moreover have "of_int \<lfloor>q\<rfloor> \<le> q" "q < of_int \<lfloor>q\<rfloor> + 1" by linarith+
  ultimately show thesis by (rule nonneg)
next
  case False
  then have "q < 0" by simp
  moreover have "trunc q = \<lceil>q\<rceil>" using False by (simp add: trunc_def)
  moreover have "\<lceil>q\<rceil> \<le> 0" using False by (simp add: ceiling_le_iff)
  moreover have "q \<le> of_int \<lceil>q\<rceil>" "of_int \<lceil>q\<rceil> - 1 < q" by linarith+
  ultimately show thesis by (rule neg)
qed

lemma trunc_abs_le: "\<bar>of_int (trunc q) :: rat\<bar> \<le> \<bar>q\<bar>"
proof (cases q rule: trunc_cases)
  case nonneg
  have h: "(0::rat) \<le> of_int \<lfloor>q\<rfloor>" using nonneg(3) by simp
  show ?thesis unfolding nonneg(2) using nonneg(1,4,5) h by linarith
next
  case neg
  have h: "(of_int \<lceil>q\<rceil> :: rat) \<le> 0" using neg(3) by simp
  show ?thesis unfolding neg(2) using neg(1,4,5) h by linarith
qed

lemma trunc_diff_abs_le: "\<bar>q - of_int (trunc q)\<bar> \<le> \<bar>q\<bar>"
proof (cases q rule: trunc_cases)
  case nonneg
  have h: "(0::rat) \<le> of_int \<lfloor>q\<rfloor>" using nonneg(3) by simp
  show ?thesis unfolding nonneg(2) using nonneg(1,4,5) h by linarith
next
  case neg
  have h: "(of_int \<lceil>q\<rceil> :: rat) \<le> 0" using neg(3) by simp
  show ?thesis unfolding neg(2) using neg(1,4,5) h by linarith
qed

lemma trunc_diff_lt_1: "\<bar>q - of_int (trunc q)\<bar> < 1"
proof (cases q rule: trunc_cases)
  case nonneg
  show ?thesis unfolding nonneg(2) using nonneg(1,4,5) by linarith
next
  case neg
  show ?thesis unfolding neg(2) using neg(1,4,5) by linarith
qed

lemma trunc_eq_iff: "(q = of_int (trunc q)) = (q \<in> \<int>)"
proof
  assume "q = of_int (trunc q)"
  then show "q \<in> \<int>" by (metis Ints_of_int)
next
  assume "q \<in> \<int>"
  then obtain i where "q = of_int i" by (rule Ints_cases)
  then show "q = of_int (trunc q)" by (simp add: trunc_def)
qed

lemma trunc_Ints: "q \<in> \<int> \<Longrightarrow> trunc q = \<lfloor>q\<rfloor>"
  unfolding trunc_def by (auto elim!: Ints_cases)

lemma dbl_cases:
  assumes "dbl q"
  obtains (int) "q \<in> \<int>"
  | (frac) m n where "q = of_int m / 2 ^ n" "\<bar>m\<bar> \<le> 2 ^ 53" "n \<le> 1074"
proof -
  from assms obtain m k where mk: "q = of_int m * pow2 k" "\<bar>m\<bar> \<le> 2 ^ 53" "- 1074 \<le> k"
    unfolding dbl_def by blast
  show thesis
  proof (cases "0 \<le> k")
    case True
    then have "q = of_int (m * 2 ^ nat k)" using mk(1) by (simp add: pow2_def)
    then have "q \<in> \<int>" by (metis Ints_of_int)
    then show thesis by (rule int)
  next
    case False
    then have "q = of_int m / 2 ^ nat (- k)" using mk(1) by (simp add: pow2_def)
    moreover have "nat (- k) \<le> 1074" using mk(3) by simp
    ultimately show thesis using mk(2) by (intro frac [of m "nat (- k)"])
  qed
qed

lemma dbl_small_int: "\<bar>i\<bar> \<le> 2 ^ 53 \<Longrightarrow> dbl (of_int i)"
  unfolding dbl_def by (intro exI [of _ i] exI [of _ 0]) (simp add: pow2_def)

lemma dbl_trunc:
  assumes "dbl q"
  shows "dbl (of_int (trunc q))"
  using assms
proof (cases rule: dbl_cases)
  case int
  then have "of_int (trunc q) = q" using trunc_eq_iff [of q] by simp
  then show ?thesis using assms by simp
next
  case (frac m n)
  have "\<bar>q\<bar> \<le> \<bar>of_int m\<bar>"
  proof -
    have "(1::rat) \<le> 2 ^ n" by simp
    then have "\<bar>of_int m :: rat\<bar> / 2 ^ n \<le> \<bar>of_int m\<bar> / 1"
      by (intro divide_left_mono) auto
    then show ?thesis by (simp add: frac(1) abs_divide)
  qed
  also have "\<dots> \<le> of_int (2 ^ 53)" using frac(2) by (simp only: of_int_abs [symmetric] of_int_le_iff)
  finally have "\<bar>of_int (trunc q) :: rat\<bar> \<le> of_int (2 ^ 53)"
    using trunc_abs_le [of q] by linarith
  then have "\<bar>trunc q\<bar> \<le> 2 ^ 53" by (simp only: of_int_abs [symmetric] of_int_le_iff)
  then show ?thesis by (rule dbl_small_int)
qed

lemma dbl_frac:
  assumes "dbl q"
  shows "dbl (q - of_int (trunc q))"
  using assms
proof (cases rule: dbl_cases)
  case int
  then have "q - of_int (trunc q) = of_int 0" using trunc_eq_iff [of q] by simp
  then show ?thesis using dbl_small_int [of 0] by simp
next
  case (frac m n)
  define m' where "m' = m - trunc q * 2 ^ n"
  have eq: "q - of_int (trunc q) = of_int m' / 2 ^ n"
    by (simp add: frac(1) m'_def field_simps)
  have 1: "\<bar>q - of_int (trunc q)\<bar> \<le> \<bar>q\<bar>" by (rule trunc_diff_abs_le)
  have 2: "\<bar>q - of_int (trunc q)\<bar> = \<bar>of_int m' :: rat\<bar> / 2 ^ n"
    by (simp only: eq abs_divide) simp
  have 3: "\<bar>q\<bar> = \<bar>of_int m :: rat\<bar> / 2 ^ n"
    by (simp only: frac(1) abs_divide) simp
  from 1 have "\<bar>of_int m' :: rat\<bar> / 2 ^ n \<le> \<bar>of_int m\<bar> / 2 ^ n"
    by (simp only: 2 3)
  then have "\<bar>of_int m' :: rat\<bar> \<le> \<bar>of_int m\<bar>"
    by (simp add: divide_le_cancel del: of_int_abs)
  then have "\<bar>m'\<bar> \<le> \<bar>m\<bar>" by (simp only: of_int_abs [symmetric] of_int_le_iff)
  then have b: "\<bar>m'\<bar> \<le> 2 ^ 53" using frac(2) by simp
  have "q - of_int (trunc q) = of_int m' * pow2 (- int n)"
    by (simp add: eq pow2_def)
  moreover have "- 1074 \<le> - int n" using frac(3) by simp
  ultimately show ?thesis using b unfolding dbl_def by blast
qed

lemma conv_N_double:
  assumes "py_float x = Inr (Fin q)" and "is_double (Fin q)"
  shows "conv_N x = Inr (if q \<in> \<int> then PyInt \<lfloor>q\<rfloor> else PyFloat (Fin q))"
proof -
  have d: "dbl q" and b: "\<bar>q\<bar> < pow2 1024" using assms(2) unfolding is_double_iff by blast+
  have i: "int_of_float (Fin q) = Inr (trunc q)" by (simp add: trunc_def)
  have "\<bar>of_int (trunc q) :: rat\<bar> < pow2 1024" using trunc_abs_le [of q] b by linarith
  then have "round_double (of_int (trunc q)) = Fin (of_int (trunc q))"
    using dbl_trunc [OF d] by (rule dbl_round_double [rotated])
  then have g: "float_of_int (trunc q) = Inr (Fin (of_int (trunc q)))"
    by (simp add: float_of_int_def)
  have "\<bar>q - of_int (trunc q)\<bar> < pow2 1024"
  proof -
    have "(1::rat) \<le> pow2 1024" using pow2_mono [of 0 1024] by (simp add: pow2_0)
    then show ?thesis using trunc_diff_lt_1 [of q] by linarith
  qed
  then have s: "float_sub (Fin q) (Fin (of_int (trunc q))) = Fin (q - of_int (trunc q))"
    using dbl_frac [OF d] by (simp add: dbl_round_double)
  show ?thesis
  proof (cases "q \<in> \<int>")
    case True
    then show ?thesis
      using assms(1) i g s trunc_eq_iff [of q] trunc_Ints [of q]
      by (simp add: conv_N_def)
  next
    case False
    then show ?thesis
      using assms(1) i g s trunc_eq_iff [of q]
      by (simp add: conv_N_def)
  qed
qed

lemma float_of_text_is_double: "float_of_text s = Inr f \<Longrightarrow> is_double f"
proof -
  have r: "is_double (round_double r)" for r
  proof (cases "round_double r")
    case (Fin q)
    have "is_double (Fin q)" using round_double_dbl [OF Fin] by (simp only: is_double_iff)
    then show ?thesis by (simp only: Fin)
  qed simp_all
  assume "float_of_text s = Inr f"
  then show ?thesis
    using r
    by (auto simp: float_of_text_def Let_def split: if_splits prod.splits option.splits)
qed

lemma float_of_string_is_double: "float_of_string s = Inr f \<Longrightarrow> is_double f"
  by (simp add: float_of_string_def float_of_text_is_double)

lemma float_of_text_error: "float_of_text s = Inl e \<Longrightarrow> e = ValueError"
  by (auto simp: float_of_text_def Let_def split: if_splits prod.splits option.splits)

lemma float_of_string_error: "float_of_string s = Inl e \<Longrightarrow> e = ValueError"
  by (simp add: float_of_string_def float_of_text_error)

lemma infer_types_single:
  "infer_types decode (PyDict [(a, PyDict [(t, v)])])
   = (case map_of (conversions decode) t of
        None \<Rightarrow> Inl KeyError
      | Some f \<Rightarrow> (case f v of Inl e \<Rightarrow> Inl e | Inr x \<Rightarrow> Inr (PyList [PyDict [(a, x)]])))"
  by (simp add: infer_types_def setitem_def split: option.splits sum.splits)

lemma conv_N_string:
  "conv_N (PyStr s)
   = (case float_of_string s of
        Inl e \<Rightarrow> Inl e
      | Inr f \<Rightarrow>
          (case f of
             Fin q \<Rightarrow> Inr (if q \<in> \<int> then PyInt \<lfloor>q\<rfloor> else PyFloat (Fin q))
           | NaN \<Rightarrow> Inl ValueError
           | _ \<Rightarrow> Inl OverflowError))"
proof (cases "float_of_string s")
  case (Inl e)
  then show ?thesis by (simp add: conv_N_def)
next
  case (Inr f)
  show ?thesis
  proof (cases f)
    case (Fin q)
    have "is_double (Fin q)" using Inr Fin float_of_string_is_double by blast
    moreover have "py_float (PyStr s) = Inr (Fin q)" using Inr Fin by simp
    ultimately show ?thesis using Inr Fin by (simp add: conv_N_double)
  qed (use Inr in \<open>simp_all add: conv_N_def\<close>)
qed

lemma float_of_string_3_0: "float_of_string ''3.0'' = Inr (Fin 3)"
  by code_simp

lemma float_of_string_3_5: "float_of_string ''3.5'' = Inr (Fin (7 / 2))"
  by code_simp

lemma float_of_string_2_53_5:
  "float_of_string ''9007199254740992.5'' = Inr (Fin 9007199254740992)"
  by code_simp

lemma not_int_7_2: "(7 / 2 :: rat) \<notin> \<int>"
proof
  assume "(7 / 2 :: rat) \<in> \<int>"
  then obtain i :: int where "(7 / 2 :: rat) = of_int i" by (rule Ints_cases)
  then have "(of_int 7 :: rat) = of_int (2 * i)" by simp
  then have "7 = 2 * i" by (simp only: of_int_eq_iff)
  then show False by presburger
qed

text \<open>
  C4, as the code has it. A text under tag \<open>N\<close> is read as a double \<open>f\<close>; the
  result is the integer \<open>int(f)\<close> when the double has no fractional part and the
  float \<open>f\<close> otherwise, so \<open>3.0\<close> gives the integer 3 and \<open>3.5\<close> the float 3.5;
  a text that \<open>float\<close> rejects and NaN raise ValueError, an infinity raises
  OverflowError. The table has a decoder for exactly the nine tags, and any other tag
  raises KeyError. The decoders of \<open>S\<close>, \<open>NULL\<close> and \<open>BOOL\<close> accept every
  payload: \<open>S\<close> gives the payload back, \<open>NULL\<close> gives \<open>None\<close>, \<open>BOOL\<close> gives
  whether the payload is one of three spellings of true. The others raise on a payload
  they cannot convert: \<open>B\<close> takes a byte string and raises TypeError on a string;
  \<open>L\<close>, \<open>M\<close>, \<open>NS\<close> and \<open>SS\<close> raise TypeError on a list or a dictionary and,
  on a string, give what \<open>json.loads\<close> decodes or raise its ValueError.
\<close>

theorem number_decoding_and_dispatch:
  "infer_types decode (PyDict [(a, PyDict [(''N'', PyStr s)])])
     = (case float_of_string s of
          Inl e \<Rightarrow> Inl ValueError
        | Inr f \<Rightarrow>
            (case f of
               Fin q \<Rightarrow>
                 Inr (PyList [PyDict [(a, if q \<in> \<int> then PyInt \<lfloor>q\<rfloor> else PyFloat (Fin q))]])
             | NaN \<Rightarrow> Inl ValueError
             | _ \<Rightarrow> Inl OverflowError))
   \<and> infer_types decode (PyDict [(a, PyDict [(''N'', PyStr ''3.0'')])])
       = Inr (PyList [PyDict [(a, PyInt 3)]])
   \<and> infer_types decode (PyDict [(a, PyDict [(''N'', PyStr ''3.5'')])])
       = Inr (PyList [PyDict [(a, PyFloat (Fin (7 / 2)))]])
   \<and> (map_of (conversions decode) t \<noteq> None)
       = (t \<in> set [''N'', ''S'', ''BOOL'', ''NULL'', ''B'', ''L'', ''M'', ''NS'', ''SS''])
   \<and> (t \<notin> set [''N'', ''S'', ''BOOL'', ''NULL'', ''B'', ''L'', ''M'', ''NS'', ''SS''] \<longrightarrow>
        infer_types decode (PyDict [(a, PyDict [(t, v)])]) = Inl KeyError)
   \<and> infer_types decode (PyDict [(a, PyDict [(''S'', v)])]) = Inr (PyList [PyDict [(a, v)]])
   \<and> infer_types decode (PyDict [(a, PyDict [(''NULL'', v)])])
       = Inr (PyList [PyDict [(a, PyNone)]])
   \<and> infer_types decode (PyDict [(a, PyDict [(''BOOL'', v)])])
       = Inr (PyList [PyDict [(a, PyBool (eq_str v ''True'' \<or> eq_str v ''true''
                                            \<or> eq_str v ''TRUE''))]])
   \<and> infer_types decode (PyDict [(a, PyDict [(''B'', PyBytes b)])])
       = Inr (PyList [PyDict [(a, PyBytes b)]])
   \<and> infer_types decode (PyDict [(a, PyDict [(''B'', PyStr s)])]) = Inl TypeError
   \<and> (j \<in> set [''L'', ''M'', ''NS'', ''SS''] \<longrightarrow>
        infer_types decode (PyDict [(a, PyDict [(j, PyList xs)])]) = Inl TypeError
      \<and> infer_types decode (PyDict [(a, PyDict [(j, PyDict d)])]) = Inl TypeError
      \<and> infer_types decode (PyDict [(a, PyDict [(j, PyStr p)])])
          = (case json_decode decode (PyStr p) of
               None \<Rightarrow> Inl ValueError
             | Some x \<Rightarrow> Inr (PyList [PyDict [(a, x)]])))"
proof -
  have n: "map_of (conversions decode) ''N'' = Some conv_N"
    by (simp add: conversions_def)
  have 1: "infer_types decode (PyDict [(a, PyDict [(''N'', PyStr s)])])
     = (case float_of_string s of
          Inl e \<Rightarrow> Inl ValueError
        | Inr f \<Rightarrow>
            (case f of
               Fin q \<Rightarrow>
                 Inr (PyList [PyDict [(a, if q \<in> \<int> then PyInt \<lfloor>q\<rfloor> else PyFloat (Fin q))]])
             | NaN \<Rightarrow> Inl ValueError
             | _ \<Rightarrow> Inl OverflowError))" for s
  proof (cases "float_of_string s")
    case (Inl e)
    then have "e = ValueError" by (rule float_of_string_error)
    with Inl show ?thesis by (simp add: infer_types_single n conv_N_string)
  next
    case (Inr f)
    then show ?thesis
      by (simp add: infer_types_single n conv_N_string split: pyfloat.splits)
  qed
  have 2: "infer_types decode (PyDict [(a, PyDict [(''N'', PyStr ''3.0'')])])
       = Inr (PyList [PyDict [(a, PyInt 3)]])"
    unfolding 1 float_of_string_3_0 by simp
  have 3: "infer_types decode (PyDict [(a, PyDict [(''N'', PyStr ''3.5'')])])
       = Inr (PyList [PyDict [(a, PyFloat (Fin (7 / 2)))]])"
    unfolding 1 float_of_string_3_5 using not_int_7_2 by simp
  have 4: "(map_of (conversions decode) t \<noteq> None)
       = (t \<in> set [''N'', ''S'', ''BOOL'', ''NULL'', ''B'', ''L'', ''M'', ''NS'', ''SS''])"
    by (simp add: conversions_def)
  have 5: "t \<notin> set [''N'', ''S'', ''BOOL'', ''NULL'', ''B'', ''L'', ''M'', ''NS'', ''SS''] \<longrightarrow>
        infer_types decode (PyDict [(a, PyDict [(t, v)])]) = Inl KeyError"
    unfolding infer_types_single by (simp add: conversions_def)
  have 6: "infer_types decode (PyDict [(a, PyDict [(''S'', v)])]) = Inr (PyList [PyDict [(a, v)]])"
    unfolding infer_types_single by (simp add: conversions_def)
  have 7: "infer_types decode (PyDict [(a, PyDict [(''NULL'', v)])])
       = Inr (PyList [PyDict [(a, PyNone)]])"
    unfolding infer_types_single by (simp add: conversions_def)
  have 8: "infer_types decode (PyDict [(a, PyDict [(''BOOL'', v)])])
       = Inr (PyList [PyDict [(a, PyBool (eq_str v ''True'' \<or> eq_str v ''true''
                                            \<or> eq_str v ''TRUE''))]])"
    unfolding infer_types_single by (simp add: conversions_def conv_BOOL_def)
  have 9: "infer_types decode (PyDict [(a, PyDict [(''B'', PyBytes b)])])
       = Inr (PyList [PyDict [(a, PyBytes b)]])"
    unfolding infer_types_single by (simp add: conversions_def)
  have 10: "infer_types decode (PyDict [(a, PyDict [(''B'', PyStr s)])]) = Inl TypeError"
    unfolding infer_types_single by (simp add: conversions_def)
  have l: "map_of (conversions decode) j = Some (json_loads decode)"
    if "j \<in> set [''L'', ''M'', ''NS'', ''SS'']"
    using that by (auto simp: conversions_def)
  have 11: "j \<in> set [''L'', ''M'', ''NS'', ''SS''] \<longrightarrow>
        infer_types decode (PyDict [(a, PyDict [(j, PyList xs)])]) = Inl TypeError
      \<and> infer_types decode (PyDict [(a, PyDict [(j, PyDict d)])]) = Inl TypeError
      \<and> infer_types decode (PyDict [(a, PyDict [(j, PyStr p)])])
          = (case json_decode decode (PyStr p) of
               None \<Rightarrow> Inl ValueError
             | Some x \<Rightarrow> Inr (PyList [PyDict [(a, x)]]))"
  proof
    assume "j \<in> set [''L'', ''M'', ''NS'', ''SS'']"
    then have m: "map_of (conversions decode) j = Some (json_loads decode)" by (rule l)
    show "infer_types decode (PyDict [(a, PyDict [(j, PyList xs)])]) = Inl TypeError
      \<and> infer_types decode (PyDict [(a, PyDict [(j, PyDict d)])]) = Inl TypeError
      \<and> infer_types decode (PyDict [(a, PyDict [(j, PyStr p)])])
          = (case json_decode decode (PyStr p) of
               None \<Rightarrow> Inl ValueError
             | Some x \<Rightarrow> Inr (PyList [PyDict [(a, x)]]))"
      unfolding infer_types_single m
      by (simp add: json_loads_def Let_def split: option.splits)
  qed
  from 1 2 3 4 5 6 7 8 9 10 11 show ?thesis by (intro conjI)
qed

theorem number_decoding_and_dispatch_witness:
  "''X'' \<notin> set [''N'', ''S'', ''BOOL'', ''NULL'', ''B'', ''L'', ''M'', ''NS'', ''SS'']
   \<and> infer_types one_json (PyDict [(''n'', PyDict [(''X'', PyStr ''1'')])]) = Inl KeyError
   \<and> infer_types one_json (PyDict [(''n'', PyDict [(''N'', PyStr ''3.0'')])])
       = Inr (PyList [PyDict [(''n'', PyInt 3)]])
   \<and> infer_types one_json (PyDict [(''n'', PyDict [(''N'', PyStr ''3.5'')])])
       = Inr (PyList [PyDict [(''n'', PyFloat (Fin (7 / 2)))]])
   \<and> ''L'' \<in> set [''L'', ''M'', ''NS'', ''SS'']
   \<and> infer_types one_json (PyDict [(''n'', PyDict [(''L'', PyList [PyInt 1])])])
       = Inl TypeError
   \<and> infer_types one_json (PyDict [(''n'', PyDict [(''L'', PyStr ''[1, 2]'')])])
       = Inr (PyList [PyDict [(''n'', PyList [PyInt 1, PyInt 2])]])
   \<and> infer_types one_json (PyDict [(''n'', PyDict [(''L'', PyStr ''[1,'')])])
       = Inl ValueError"
proof -
  have x: "''X'' \<notin> set [''N'', ''S'', ''BOOL'', ''NULL'', ''B'', ''L'', ''M'', ''NS'', ''SS'']"
    by simp
  have l: "''L'' \<in> set [''L'', ''M'', ''NS'', ''SS'']"
    by simp
  note T = number_decoding_and_dispatch
             [where decode = one_json and a = "''n''" and t = "''X''" and v = "PyStr ''1''"
                and j = "''L''" and xs = "[PyInt 1]"]
  from T [where p = "''[1, 2]''"] x l
  have a: "infer_types one_json (PyDict [(''n'', PyDict [(''X'', PyStr ''1'')])]) = Inl KeyError"
    and b: "infer_types one_json (PyDict [(''n'', PyDict [(''N'', PyStr ''3.0'')])])
       = Inr (PyList [PyDict [(''n'', PyInt 3)]])"
    and c: "infer_types one_json (PyDict [(''n'', PyDict [(''N'', PyStr ''3.5'')])])
       = Inr (PyList [PyDict [(''n'', PyFloat (Fin (7 / 2)))]])"
    and d: "infer_types one_json (PyDict [(''n'', PyDict [(''L'', PyList [PyInt 1])])])
       = Inl TypeError"
    and e: "infer_types one_json (PyDict [(''n'', PyDict [(''L'', PyStr ''[1, 2]'')])])
       = (case json_decode one_json (PyStr ''[1, 2]'') of
            None \<Rightarrow> Inl ValueError
          | Some x \<Rightarrow> Inr (PyList [PyDict [(''n'', x)]]))"
    by blast+
  from T [where p = "''[1,''"] l
  have f: "infer_types one_json (PyDict [(''n'', PyDict [(''L'', PyStr ''[1,'')])])
       = (case json_decode one_json (PyStr ''[1,'') of
            None \<Rightarrow> Inl ValueError
          | Some x \<Rightarrow> Inr (PyList [PyDict [(''n'', x)]]))"
    by blast
  have e': "infer_types one_json (PyDict [(''n'', PyDict [(''L'', PyStr ''[1, 2]'')])])
       = Inr (PyList [PyDict [(''n'', PyList [PyInt 1, PyInt 2])]])"
    unfolding e by (simp add: one_json_def)
  have f': "infer_types one_json (PyDict [(''n'', PyDict [(''L'', PyStr ''[1,'')])])
       = Inl ValueError"
    unfolding f by (simp add: one_json_def)
  from x l a b c d e' f' show ?thesis by (intro conjI)
qed

text \<open>
  The claim C4 as the specification words it fails twice: a number text with a
  fractional part that the double cannot hold decodes to an integer, and the
  documented tag \<open>B\<close> with a string payload raises TypeError.
\<close>

theorem number_decoding_loses_fraction_and_B_rejects_text:
  "infer_types no_json (PyDict [(''n'', PyDict [(''N'', PyStr ''9007199254740992.5'')])])
     = Inr (PyList [PyDict [(''n'', PyInt 9007199254740992)]])
   \<and> infer_types no_json (PyDict [(''blob'', PyDict [(''B'', PyStr ''aGk='')])])
     = Inl TypeError"
proof -
  have n: "map_of (conversions no_json) ''N'' = Some conv_N"
    by (simp add: conversions_def)
  have a: "infer_types no_json (PyDict [(''n'', PyDict [(''N'', PyStr ''9007199254740992.5'')])])
     = Inr (PyList [PyDict [(''n'', PyInt 9007199254740992)]])"
    by (simp add: infer_types_single n conv_N_string float_of_string_2_53_5)
  have b: "infer_types no_json (PyDict [(''blob'', PyDict [(''B'', PyStr ''aGk='')])])
     = Inl TypeError"
    unfolding infer_types_single by (simp add: conversions_def)
  from a b show ?thesis by simp
qed

subsection \<open>What the operations change\<close>

text \<open>
  The world after each operation, in closed form: every operation makes at most one
  call to the store; none but \<open>scan_table\<close> touches the handle, and
  \<open>scan_table\<close> replaces its \<open>payload\<close> and nothing else; \<open>add_item\<close>
  writes to the one dictionary it was given, also when the conversion raises.
\<close>

lemma sum_case_const: "(case s of Inl e \<Rightarrow> c | Inr r \<Rightarrow> c) = c"
  by (cases s) simp_all

lemma prod_case_const: "(case p of (a, b) \<Rightarrow> c) = c"
  by (cases p) simp

lemma pyval_case_const:
  "(case v of PyNone \<Rightarrow> c | PyBool b \<Rightarrow> c | PyInt i \<Rightarrow> c | PyFloat f \<Rightarrow> c | PyStr s \<Rightarrow> c
      | PyBytes bs \<Rightarrow> c | PyByteArray ba \<Rightarrow> c | PyDecimal d \<Rightarrow> c | Binary x \<Rightarrow> c
      | BytesType \<Rightarrow> c | PyList xs \<Rightarrow> c | PyDict kvs \<Rightarrow> c) = c"
  by (cases v) simp_all

lemmas snd_distrib =
  sum.case_distrib [of snd] prod.case_distrib [of snd] pyval.case_distrib [of snd]
  if_distrib [of snd] error.case_distrib [of snd] boto_error.case_distrib [of snd]

lemmas case_congs = sum.case_cong prod.case_cong pyval.case_cong if_cong

lemmas case_consts = sum_case_const prod_case_const pyval_case_const

lemma snd_get_by_keys:
  "snd (get_by_keys pk_value sk_value AttributesToGet w)
   = (case define_key_args (self w) pk_value sk_value of
        Inl e \<Rightarrow> w
      | Inr arguments \<Rightarrow>
          w\<lparr>calls := calls w @
                 [(''get_item'',
                   if AttributesToGet \<noteq> []
                   then setitem ''AttributesToGet'' (PyList (map PyStr AttributesToGet)) arguments
                   else arguments)]\<rparr>)"
  by (simp add: get_by_keys_def invoke_def Let_def snd_distrib case_consts cong: case_congs)

lemma snd_batch_get_by_key:
  "snd (batch_get_by_key decode pk_list sk_list AttributesToGet w)
   = (case define_list_key_args (self w) pk_list sk_list of
        Inl e \<Rightarrow> w
      | Inr arguments \<Rightarrow>
          w\<lparr>calls := calls w @
                 [(''batch_get_item'',
                   if AttributesToGet \<noteq> []
                   then set_attributes_to_get (table_name (table (self w)))
                          (PyList (map PyStr AttributesToGet)) arguments
                   else arguments)]\<rparr>)"
  by (simp add: batch_get_by_key_def invoke_def Let_def snd_distrib case_consts cong: case_congs)

lemma snd_query_table:
  "snd (query_table type kw w)
   = (if type = ''PartiQL'' then w\<lparr>calls := calls w @ [(''execute_statement'', kw)]\<rparr>
      else if type = ''native'' then w\<lparr>calls := calls w @ [(''query'', kw)]\<rparr>
      else w)"
  by (simp add: query_table_def invoke_def Let_def snd_distrib case_consts cong: case_congs)

lemma snd_scan_table:
  "snd (scan_table kw w)
   = w\<lparr>self := (self w)\<lparr>payload := Some []\<rparr>, calls := calls w @ [(''scan'', [])]\<rparr>"
  by (simp add: scan_table_def invoke_def Let_def snd_distrib case_consts cong: case_congs)

lemma snd_update_item:
  "snd (update_item pk_value sk_value attribute_name attribute_value kw w)
   = (case define_key_args (self w) pk_value sk_value of
        Inl e \<Rightarrow> w
      | Inr key_args \<Rightarrow>
          w\<lparr>calls := calls w @
                 [(''update_item'',
                   update_arguments key_args attribute_name attribute_value kw)]\<rparr>)"
  by (simp add: update_item_def invoke_def Let_def snd_distrib case_consts
        split: sum.split error.split boto_error.split cong: case_congs)

lemma snd_dump_item:
  "snd (dump_item pk_value sk_value kw w)
   = (case define_key_args (self w) pk_value sk_value of
        Inl e \<Rightarrow> w
      | Inr arguments \<Rightarrow> w\<lparr>calls := calls w @ [(''delete_item'', arguments)]\<rparr>)"
  by (simp add: dump_item_def invoke_def Let_def snd_distrib case_consts cong: case_congs)

lemma self_add_item: "self (snd (add_item pk_value sk_value item w)) = self w"
  by (simp add: add_item_def invoke_def Let_def split: sum.split prod.split pyval.split)

lemma operations_keep_handle:
  "self (snd (get_by_keys pk_value sk_value AttributesToGet w)) = self w"
  "self (snd (batch_get_by_key decode pk_list sk_list AttributesToGet w)) = self w"
  "self (snd (query_table type kw w)) = self w"
  "self (snd (add_item pk_value sk_value item w)) = self w"
  "self (snd (update_item pk_value sk_value attribute_name attribute_value kw w)) = self w"
  "self (snd (dump_item pk_value sk_value kw w)) = self w"
  by (simp_all add: snd_get_by_keys snd_batch_get_by_key snd_query_table self_add_item
        snd_update_item snd_dump_item split: sum.split)

lemma scan_table_keeps_schema_fields:
  "client (self (snd (scan_table kw w))) = client (self w)"
  "table (self (snd (scan_table kw w))) = table (self w)"
  "key_schema (self (snd (scan_table kw w))) = key_schema (self w)"
  "partition_key (self (snd (scan_table kw w))) = partition_key (self w)"
  "sort_key (self (snd (scan_table kw w))) = sort_key (self w)"
  "payload (self (snd (scan_table kw w))) = Some []"
  by (simp_all add: snd_scan_table)

lemma float_round_trip: "is_double f \<Longrightarrow> float_of_decimal (decimal_of_float f) = Inr f"
  by (cases f) simp_all

lemma heap_add_item:
  "heap (snd (add_item pk_value sk_value item w))
   = (case define_key_args (self w) pk_value sk_value of
        Inl e \<Rightarrow> heap w
      | Inr key_args \<Rightarrow>
          (case subscript (PyDict key_args) ''Key'' of
             Inr (PyDict key) \<Rightarrow>
               (heap w)(item := fst (convert_dtypes (merge_key key (heap w item)) ''native2dynamo''))
           | _ \<Rightarrow> heap w))"
  by (simp add: add_item_def invoke_def Let_def split: sum.split prod.split pyval.split)

subsection \<open>Where NotFoundError can come from\<close>

text \<open>
  No builtin, no decoder and no subscript raises one of the repository's exceptions,
  and the store raises its own: a \<open>NotFoundError\<close> of \<open>batch_get_by_key\<close> is the
  one it raises itself, on an empty decoded result.
\<close>

lemma status_code_error: "status_code r = Inl e \<Longrightarrow> e = KeyError \<or> e = TypeError"
  by (auto simp: status_code_def split: sum.splits dest: subscript_error)

lemma py_float_error: "py_float x = Inl e \<Longrightarrow> error_class e = None"
  by (cases x; cases "case x of PyDecimal d \<Rightarrow> d | _ \<Rightarrow> DFin 0")
     (auto simp: float_of_int_def dest: float_of_string_error float_of_text_error
        split: pyfloat.splits)

lemma int_of_float_error: "int_of_float f = Inl e \<Longrightarrow> error_class e = None"
  by (cases f) auto

lemma conv_N_error: "conv_N x = Inl e \<Longrightarrow> error_class e = None"
  by (auto simp: conv_N_def float_of_int_def
        split: sum.splits if_splits pyfloat.splits dest: py_float_error int_of_float_error)

lemma byte_of_error: "byte_of x = Inl e \<Longrightarrow> error_class e = None"
  by (cases x) (auto split: if_splits)

lemma bytes_of_list_error: "bytes_of_list xs = Inl e \<Longrightarrow> error_class e = None"
  by (induction xs) (auto split: sum.splits dest: byte_of_error)

lemma py_bytes_error: "py_bytes fits x = Inl e \<Longrightarrow> error_class e = None"
  by (cases x) (auto split: sum.splits if_splits pyval.splits dest: bytes_of_list_error)

lemma json_loads_error: "json_loads decode x = Inl e \<Longrightarrow> error_class e = None"
  by (auto simp: json_loads_def Let_def split: pyval.splits option.splits)

lemma conversions_error:
  "map_of (conversions decode) t = Some f \<Longrightarrow> f v = Inl e \<Longrightarrow> error_class e = None"
  by (auto simp: conversions_def conv_BOOL_def split: if_splits
        dest: conv_N_error py_bytes_error json_loads_error)

lemma infer_value_error:
  "infer_value decode a vd item = Inl e \<Longrightarrow> error_class e = None"
  by (induction vd arbitrary: item)
     (auto split: option.splits sum.splits dest: conversions_error)

lemma infer_item_error:
  "infer_item decode kvs item = Inl e \<Longrightarrow> error_class e = None"
  by (induction kvs arbitrary: item)
     (auto split: pyval.splits sum.splits dest: infer_value_error)

lemma infer_items_error:
  "infer_items decode xs = Inl e \<Longrightarrow> error_class e = None"
  by (induction xs) (auto split: pyval.splits sum.splits dest: infer_item_error)

lemma infer_types_error:
  "infer_types decode raw = Inl e \<Longrightarrow> error_class e = None"
  by (auto simp: infer_types_def split: sum.splits dest: infer_items_error)

lemma define_list_key_args_error:
  "define_list_key_args h pk_list sk_list = Inl e \<Longrightarrow> error_class e = None"
  by (auto simp: define_list_key_args_def split: if_splits option.splits)

lemma batch_get_not_found_only_if_empty:
  assumes "fst (batch_get_by_key decode pk_list sk_list AttributesToGet w) = Inl (Raised c code m)"
  shows "\<exists>arguments response statusCode rs raw.
           define_list_key_args (self w) pk_list sk_list = Inr arguments
         \<and> client_batch_get_item (client (self w))
              (if AttributesToGet \<noteq> []
               then set_attributes_to_get (table_name (table (self w)))
                      (PyList (map PyStr AttributesToGet)) arguments
               else arguments) = Inr response
         \<and> status_code response = Inr statusCode
         \<and> subscript response ''Responses'' = Inr rs
         \<and> subscript rs (table_name (table (self w))) = Inr raw
         \<and> infer_types decode raw = Inr (PyList [])
         \<and> c = NotFoundError \<and> code = 404"
proof (cases "define_list_key_args (self w) pk_list sk_list")
  case (Inl e)
  then show ?thesis
    using assms define_list_key_args_error [OF Inl] by (simp add: batch_get_by_key_def)
next
  case (Inr arguments)
  define kw where "kw = (if AttributesToGet \<noteq> []
               then set_attributes_to_get (table_name (table (self w)))
                      (PyList (map PyStr AttributesToGet)) arguments
               else arguments)"
  show ?thesis
  proof (cases "client_batch_get_item (client (self w)) kw")
    case (Inl b)
    then show ?thesis
      using assms Inr by (simp add: batch_get_by_key_def invoke_def kw_def)
  next
    case response: (Inr response)
    show ?thesis
    proof (cases "status_code response")
      case (Inl e)
      then show ?thesis
        using assms Inr response status_code_error [OF Inl]
        by (auto simp: batch_get_by_key_def invoke_def kw_def)
    next
      case sc: (Inr statusCode)
      show ?thesis
      proof (cases "subscript response ''Responses''")
        case (Inl e)
        then show ?thesis
          using assms Inr response sc subscript_error [OF Inl]
          by (auto simp: batch_get_by_key_def invoke_def kw_def)
      next
        case rs: (Inr rs)
        show ?thesis
        proof (cases "subscript rs (table_name (table (self w)))")
          case (Inl e)
          then show ?thesis
            using assms Inr response sc rs subscript_error [OF Inl]
            by (auto simp: batch_get_by_key_def invoke_def kw_def)
        next
          case raw: (Inr raw)
          show ?thesis
          proof (cases "infer_types decode raw")
            case (Inl e)
            then show ?thesis
              using assms Inr response sc rs raw infer_types_error [OF Inl]
              by (auto simp: batch_get_by_key_def invoke_def kw_def)
          next
            case data: (Inr data)
            have "data = PyList [] \<and> c = NotFoundError \<and> code = 404"
              using assms Inr response sc rs raw data infer_types_list [OF data]
              by (auto simp: batch_get_by_key_def invoke_def kw_def raise_def exception_init_def
                    default_code_def split: sum.splits if_splits dest: subscript_error)
            then show ?thesis using Inr response sc rs raw data unfolding kw_def by blast
          qed
        qed
      qed
    qed
  qed
qed

end
